theory Spec2Isabelle
  imports Complex_Main
begin

section \<open>Exceptions, remote outcomes and the observable world\<close>

text \<open>
  The script \<^verbatim>\<open>alpha_entry.py\<close> talks to two remote clients, sleeps, reads the
  clock and writes log records. Each of these effects is made explicit: an exception is
  a value of \<open>exn\<close>, a remote call produces an \<open>outcome\<close>, and everything
  a run does that can be observed from outside is appended to the \<open>trace\<close> of
  the \<open>world\<close>.
\<close>

datatype exn =
    RequestException string      \<comment> \<open>\<^verbatim>\<open>requests.exceptions.RequestException\<close> and subclasses\<close>
  | ValueError string            \<comment> \<open>\<^verbatim>\<open>ValueError\<close> and subclasses\<close>
  | KeyError string
  | IndexError
  | DivisionByZero               \<comment> \<open>\<^verbatim>\<open>decimal.DivisionByZero\<close>\<close>
  | InvalidOperation             \<comment> \<open>\<^verbatim>\<open>decimal.InvalidOperation\<close>\<close>
  | PlainException string            \<comment> \<open>a plain \<^verbatim>\<open>Exception(msg)\<close>\<close>
  | OtherException string        \<comment> \<open>any other subclass of \<^verbatim>\<open>Exception\<close>\<close>
  | KeyboardInterrupt            \<comment> \<open>a \<^verbatim>\<open>BaseException\<close> that is not an \<^verbatim>\<open>Exception\<close>\<close>

text \<open>What a client function does when called: it returns a value (\<open>None\<close> is
  Python's \<^verbatim>\<open>None\<close>) or raises.\<close>

datatype 'a outcome = Returns "'a option" | Raises exn

text \<open>The keyword arguments of \<^verbatim>\<open>create_order_v3\<close>; an argument that a call site
  does not pass is \<open>None\<close>.\<close>

record order_request =
  symbol :: string
  side :: string
  type :: string
  size :: string
  price :: string
  timeInForce :: string
  timestampSeconds :: int
  isPositionTpsl :: "bool option"
  reduceOnly :: "bool option"
  triggerPriceType :: "string option"
  triggerPrice :: "string option"

datatype endpoint =
    GetAccountV3
  | GetAccountBalanceV3
  | ConfigsV3
  | TickerV3 string
  | CreateOrderV3 order_request

datatype event =
    Called endpoint              \<comment> \<open>one invocation of a client function\<close>
  | Warning nat nat exn          \<comment> \<open>\<^verbatim>\<open>logging.warning\<close>: attempt + 1, max_retries, cause\<close>
  | Sleep rat                    \<comment> \<open>\<^verbatim>\<open>time.sleep\<close>, in seconds\<close>
  | Info string string           \<comment> \<open>\<^verbatim>\<open>logging.info\<close>: label and rendered payload\<close>
  | Error exn                    \<comment> \<open>\<^verbatim>\<open>logging.error\<close>\<close>
  | Print string

record world =
  trace :: "event list"
  ncalls :: nat                  \<comment> \<open>remote calls made so far\<close>
  nclock :: nat                  \<comment> \<open>clock reads made so far\<close>

type_synonym 'a action = "world \<Rightarrow> 'a outcome \<times> world"

definition emit :: "event list \<Rightarrow> world \<Rightarrow> world" where
  "emit es s = s\<lparr>trace := trace s @ es\<rparr>"

text \<open>A remote call: the behaviour \<open>f\<close> of the client function is a function of the
  number of remote calls made before it; the call is recorded and counted.\<close>

definition remote :: "endpoint \<Rightarrow> (nat \<Rightarrow> 'a outcome) \<Rightarrow> 'a action" where
  "remote ep f s = (f (ncalls s), (emit [Called ep] s)\<lparr>ncalls := Suc (ncalls s)\<rparr>)"

section \<open>api_call_with_retry\<close>

definition max_retries :: nat where
  "max_retries = 5"

definition backoff_factor :: rat where
  "backoff_factor = 1 / 2"

text \<open>The \<^verbatim>\<open>except (requests.exceptions.RequestException, ValueError)\<close> clause.\<close>

fun caught_by_retry :: "exn \<Rightarrow> bool" where
  "caught_by_retry (RequestException _) = True"
| "caught_by_retry (ValueError _) = True"
| "caught_by_retry _ = False"

text \<open>The body of the \<^verbatim>\<open>except\<close> clause: a warning, then the sleep.\<close>

definition on_failure :: "nat \<Rightarrow> exn \<Rightarrow> world \<Rightarrow> world" where
  "on_failure attempt e s =
     emit [Warning (attempt + 1) max_retries e, Sleep (backoff_factor * 2 ^ attempt)] s"

text \<open>The \<^verbatim>\<open>for attempt in range(max_retries)\<close> loop, as a recursion over the
  attempts that remain; the statement after the loop is the empty case.\<close>

fun retry_loop :: "'a action \<Rightarrow> nat list \<Rightarrow> world \<Rightarrow> (exn + 'a) \<times> world" where
  "retry_loop api_func [] s =
     (Inl (PlainException ''Failed to execute API call after 5 attempts''), s)"
| "retry_loop api_func (attempt # rest) s =
     (case api_func s of
        (Returns (Some response), s') \<Rightarrow> (Inr response, s')
      | (Returns None, s') \<Rightarrow>
          retry_loop api_func rest
            (on_failure attempt (ValueError ''Empty response received'') s')
      | (Raises e, s') \<Rightarrow>
          if caught_by_retry e then retry_loop api_func rest (on_failure attempt e s')
          else (Inl e, s'))"

definition api_call_with_retry :: "'a action \<Rightarrow> world \<Rightarrow> (exn + 'a) \<times> world" where
  "api_call_with_retry api_func s = retry_loop api_func [0..<max_retries] s"

section \<open>decimal.Decimal in the default context\<close>

text \<open>
  Every quantity of the script is a \<^verbatim>\<open>decimal.Decimal\<close>, and the script never changes
  the decimal context, so arithmetic runs with 28 significant digits and rounding mode
  \<^verbatim>\<open>ROUND_HALF_EVEN\<close>. A finite \<^verbatim>\<open>Decimal\<close> is a sign, a coefficient and an
  exponent, and denotes \<open>(-1)^sign * coefficient * 10^exponent\<close>. The operations below
  are the ones the script uses (\<^verbatim>\<open>*\<close>, \<^verbatim>\<open>/\<close>, \<^verbatim>\<open>//\<close>, \<^verbatim>\<open>+\<close>, \<^verbatim>\<open>-\<close>,
  \<^verbatim>\<open>str\<close>), on finite operands; NaN, the infinities and the exponent limits
  (\<^verbatim>\<open>Emax = 999999\<close>) are outside the model.
\<close>

datatype decimal = Decimal (d_sign: bool) (d_int: nat) (d_exp: int)

definition prec :: nat where
  "prec = 28"

text \<open>The value denoted.\<close>

definition dec_val :: "decimal \<Rightarrow> rat" where
  "dec_val d = (if d_sign d then - 1 else 1) * of_nat (d_int d) * power_int 10 (d_exp d)"

text \<open>\<^verbatim>\<open>Decimal(n)\<close> for a Python int.\<close>

definition dec_of_int :: "int \<Rightarrow> decimal" where
  "dec_of_int n = Decimal (n < 0) (nat \<bar>n\<bar>) 0"

text \<open>\<^verbatim>\<open>len(str(n))\<close>: the number of decimal digits of a coefficient.\<close>

fun ndigits :: "nat \<Rightarrow> nat" where
  "ndigits n = (if n < 10 then 1 else Suc (ndigits (n div 10)))"

declare ndigits.simps [simp del]

definition adjusted :: "decimal \<Rightarrow> int" where
  "adjusted d = d_exp d + int (ndigits (d_int d)) - 1"

text \<open>Rounding a result to the context precision (\<^verbatim>\<open>Decimal._fix\<close>): a coefficient of
  more than \<open>prec\<close> digits loses its last digits, half to even; a carry into a new
  digit drops one more.\<close>

definition dec_fix :: "decimal \<Rightarrow> decimal" where
  "dec_fix d =
     (let n = ndigits (d_int d) in
      if n \<le> prec then d
      else
        let digits = n - prec;
            q = d_int d div 10 ^ digits;
            r = d_int d mod 10 ^ digits;
            half = 5 * 10 ^ (digits - 1);
            q' = (if half < r \<or> (r = half \<and> odd q) then q + 1 else q)
        in if prec < ndigits q' then Decimal (d_sign d) (q' div 10) (d_exp d + int digits + 1)
           else Decimal (d_sign d) q' (d_exp d + int digits))"

definition dec_mul :: "decimal \<Rightarrow> decimal \<Rightarrow> decimal" where
  "dec_mul a b =
     dec_fix (Decimal (d_sign a \<noteq> d_sign b) (d_int a * d_int b) (d_exp a + d_exp b))"

definition dec_neg :: "decimal \<Rightarrow> decimal" where
  "dec_neg a = Decimal (\<not> d_sign a) (d_int a) (d_exp a)"

text \<open>Addition: the exact sum at the smaller exponent, then rounded. A zero sum of
  non-zero operands is positive; a sum of two zeros is negative only if both are.\<close>

definition dec_add :: "decimal \<Rightarrow> decimal \<Rightarrow> decimal" where
  "dec_add a b =
     (let xp = min (d_exp a) (d_exp b);
          ia = (if d_sign a then - 1 else 1) * int (d_int a) * 10 ^ nat (d_exp a - xp);
          ib = (if d_sign b then - 1 else 1) * int (d_int b) * 10 ^ nat (d_exp b - xp);
          z = ia + ib
      in if d_int a = 0 \<and> d_int b = 0 then dec_fix (Decimal (d_sign a \<and> d_sign b) 0 xp)
         else dec_fix (Decimal (z < 0) (nat \<bar>z\<bar>) xp))"

definition dec_sub :: "decimal \<Rightarrow> decimal \<Rightarrow> decimal" where
  "dec_sub a b = dec_add a (dec_neg b)"

text \<open>The loop of \<^verbatim>\<open>__truediv__\<close> that brings an exact quotient as close to the ideal
  exponent as its trailing zeros allow.\<close>

function strip_zeros :: "nat \<Rightarrow> int \<Rightarrow> int \<Rightarrow> nat \<times> int" where
  "strip_zeros coeff xp ideal_exp =
     (if xp < ideal_exp \<and> coeff mod 10 = 0 then strip_zeros (coeff div 10) (xp + 1) ideal_exp
      else (coeff, xp))"
  by pat_completeness auto
termination
  by (relation "measure (\<lambda>(coeff, xp, ideal_exp). nat (ideal_exp - xp))") auto

declare strip_zeros.simps [simp del]

text \<open>True division \<^verbatim>\<open>a / b\<close>.\<close>

definition dec_truediv :: "decimal \<Rightarrow> decimal \<Rightarrow> exn + decimal" where
  "dec_truediv a b =
     (let sign = (d_sign a \<noteq> d_sign b) in
      if d_int b = 0 then (if d_int a = 0 then Inl InvalidOperation else Inl DivisionByZero)
      else if d_int a = 0 then Inr (dec_fix (Decimal sign 0 (d_exp a - d_exp b)))
      else
        let shift = int (ndigits (d_int b)) - int (ndigits (d_int a)) + int prec + 1;
            xp = d_exp a - d_exp b - shift;
            n1 = (if 0 \<le> shift then d_int a * 10 ^ nat shift else d_int a);
            n2 = (if 0 \<le> shift then d_int b else d_int b * 10 ^ nat (- shift));
            coeff = n1 div n2;
            remainder = n1 mod n2;
            (coeff', xp') =
               (if remainder \<noteq> 0 then (if coeff mod 5 = 0 then coeff + 1 else coeff, xp)
                else strip_zeros coeff xp (d_exp a - d_exp b))
        in Inr (dec_fix (Decimal sign coeff' xp')))"

text \<open>Floor division \<^verbatim>\<open>a // b\<close>: the integer part of the quotient, truncated towards
  zero, with exponent 0; a quotient of more than \<open>prec\<close> digits is an error.\<close>

definition dec_floordiv :: "decimal \<Rightarrow> decimal \<Rightarrow> exn + decimal" where
  "dec_floordiv a b =
     (let sign = (d_sign a \<noteq> d_sign b) in
      if d_int b = 0 then (if d_int a \<noteq> 0 then Inl DivisionByZero else Inl InvalidOperation)
      else
        let expdiff = adjusted a - adjusted b in
        if d_int a = 0 \<or> expdiff \<le> - 2 then Inr (Decimal sign 0 0)
        else if expdiff \<le> int prec then
          let n1 = (if d_exp b \<le> d_exp a then d_int a * 10 ^ nat (d_exp a - d_exp b) else d_int a);
              n2 = (if d_exp b \<le> d_exp a then d_int b else d_int b * 10 ^ nat (d_exp b - d_exp a));
              q = n1 div n2
          in if q < 10 ^ prec then Inr (Decimal sign q 0) else Inl InvalidOperation
        else Inl InvalidOperation)"

text \<open>\<^verbatim>\<open>str\<close> of a non-negative int and of a \<^verbatim>\<open>Decimal\<close>.\<close>

fun digits_of :: "nat \<Rightarrow> string" where
  "digits_of n =
     (if n < 10 then [''0123456789'' ! n] else digits_of (n div 10) @ [''0123456789'' ! (n mod 10)])"

declare digits_of.simps [simp del]

definition dec_str :: "decimal \<Rightarrow> string" where
  "dec_str d =
     (let sign = (if d_sign d then ''-'' else '''');
          ds = digits_of (d_int d);
          leftdigits = d_exp d + int (length ds);
          dotplace = (if d_exp d \<le> 0 \<and> - 6 < leftdigits then leftdigits else 1);
          intpart = (if dotplace \<le> 0 then ''0''
                     else if int (length ds) \<le> dotplace
                       then ds @ replicate (nat (dotplace - int (length ds))) CHR ''0''
                     else take (nat dotplace) ds);
          fracpart = (if dotplace \<le> 0 then ''.'' @ replicate (nat (- dotplace)) CHR ''0'' @ ds
                      else if int (length ds) \<le> dotplace then ''''
                      else ''.'' @ drop (nat dotplace) ds);
          xp = (if leftdigits = dotplace then ''''
                 else ''E'' @ (if leftdigits - dotplace < 0 then ''-'' else ''+'')
                        @ digits_of (nat \<bar>leftdigits - dotplace\<bar>))
      in sign @ intpart @ fracpart @ xp)"

section \<open>The remote clients\<close>

text \<open>
  The responses of the clients are Python dictionaries; the model keeps the parts of
  them the script reads. A decimal string of a response is held as the
  \<^verbatim>\<open>Decimal\<close> it converts to.
\<close>

datatype account_data =
    AccountMissingData                 \<comment> \<open>no key \<^verbatim>\<open>'data'\<close>\<close>
  | AccountMissingBalance              \<comment> \<open>no key \<^verbatim>\<open>'availableBalance'\<close> under \<^verbatim>\<open>'data'\<close>\<close>
  | AvailableBalance decimal

datatype contract = Contract (c_symbol: string) (tickSize: decimal) (stepSize: decimal)

datatype configs_response =
    ConfigsMissingData                 \<comment> \<open>no key \<^verbatim>\<open>'data'\<close>\<close>
  | PerpetualContracts "contract list" \<comment> \<open>\<^verbatim>\<open>data.contractConfig.perpetualContract\<close>, \<open>[]\<close> when absent\<close>

text \<open>\<^verbatim>\<open>ticker['data']\<close>: the \<^verbatim>\<open>lastPrice\<close> of each element.\<close>

type_synonym ticker_response = "decimal list"

text \<open>What the outside does: the behaviour of each client function at the \<open>n\<close>-th
  remote call of the run, and the value of \<^verbatim>\<open>int(time.time())\<close> at the \<open>n\<close>-th
  clock read.\<close>

record env =
  get_account_v3 :: "nat \<Rightarrow> string outcome"
  get_account_balance_v3 :: "nat \<Rightarrow> account_data outcome"
  configs_v3 :: "nat \<Rightarrow> configs_response outcome"
  ticker_v3 :: "string \<Rightarrow> nat \<Rightarrow> ticker_response outcome"
  create_order_v3 :: "order_request \<Rightarrow> nat \<Rightarrow> string outcome"
  time :: "nat \<Rightarrow> int"

type_synonym 'a prog = "world \<Rightarrow> (exn + 'a) \<times> world"

text \<open>Sequencing: an exception ends the run of the statements that follow.\<close>

definition and_then :: "'a prog \<Rightarrow> ('a \<Rightarrow> 'b prog) \<Rightarrow> 'b prog" where
  "and_then m k s = (case m s of (Inl e, s') \<Rightarrow> (Inl e, s') | (Inr x, s') \<Rightarrow> k x s')"

definition pure :: "exn + 'a \<Rightarrow> 'a prog" where
  "pure r s = (r, s)"

definition log_info :: "string \<Rightarrow> string \<Rightarrow> unit prog" where
  "log_info label payload s = (Inr (), emit [Info label payload] s)"

definition read_clock :: "env \<Rightarrow> int prog" where
  "read_clock ev s = (Inr (time ev (nclock s)), s\<lparr>nclock := Suc (nclock s)\<rparr>)"

section \<open>The steps of the script\<close>

definition fetch_account_data :: "env \<Rightarrow> account_data prog" where
  "fetch_account_data ev =
     api_call_with_retry (remote GetAccountBalanceV3 (get_account_balance_v3 ev))"

definition fetch_current_price :: "env \<Rightarrow> string \<Rightarrow> decimal prog" where
  "fetch_current_price ev symb =
     and_then (api_call_with_retry (remote (TickerV3 symb) (ticker_v3 ev symb)))
       (\<lambda>ticker. pure (case ticker of [] \<Rightarrow> Inl IndexError | lastPrice # _ \<Rightarrow> Inr lastPrice))"

text \<open>\<^verbatim>\<open>(x // g) * g\<close>, lines 48, 87 and 88.\<close>

definition quantize :: "decimal \<Rightarrow> decimal \<Rightarrow> exn + decimal" where
  "quantize x g = (case dec_floordiv x g of Inl e \<Rightarrow> Inl e | Inr q \<Rightarrow> Inr (dec_mul q g))"

definition calculate_position_size ::
  "account_data \<Rightarrow> decimal \<Rightarrow> decimal \<Rightarrow> decimal \<Rightarrow> exn + decimal" where
  "calculate_position_size account_data leverage current_price step_size =
     (case account_data of
        AccountMissingData \<Rightarrow> Inl (KeyError ''data'')
      | AccountMissingBalance \<Rightarrow> Inl (KeyError ''availableBalance'')
      | AvailableBalance available_margin \<Rightarrow>
          let real_leverage = dec_mul leverage (dec_of_int 100) in
          (case dec_truediv (dec_mul available_margin real_leverage) current_price of
             Inl e \<Rightarrow> Inl e
           | Inr position_size \<Rightarrow> quantize position_size step_size))"

definition fetch_tick_and_step_size :: "env \<Rightarrow> string \<Rightarrow> (decimal \<times> decimal) prog" where
  "fetch_tick_and_step_size ev symb =
     and_then (api_call_with_retry (remote ConfigsV3 (configs_v3 ev)))
       (\<lambda>response. pure
          (case response of
             ConfigsMissingData \<Rightarrow> Inl (PlainException ''Error fetching configs'')
           | PerpetualContracts perpetual_contracts \<Rightarrow>
               if perpetual_contracts = []
               then Inl (PlainException ''No perpetual contracts found under contractConfig.'')
               else (case find (\<lambda>item. c_symbol item = symb) perpetual_contracts of
                       None \<Rightarrow> Inl (PlainException ''Symbol data not found'')
                     | Some symbol_data \<Rightarrow> Inr (tickSize symbol_data, stepSize symbol_data))))"

text \<open>\<^verbatim>\<open>str.lower\<close> and \<^verbatim>\<open>str.upper\<close> on the ASCII letters (a string is a list of
  bytes here; no byte outside ASCII lowers to a letter of \<^verbatim>\<open>buy\<close> or \<^verbatim>\<open>sell\<close>).\<close>

definition lower_char :: "char \<Rightarrow> char" where
  "lower_char c =
     (case map_of (zip ''ABCDEFGHIJKLMNOPQRSTUVWXYZ'' ''abcdefghijklmnopqrstuvwxyz'') c of
        None \<Rightarrow> c | Some l \<Rightarrow> l)"

definition upper_char :: "char \<Rightarrow> char" where
  "upper_char c =
     (case map_of (zip ''abcdefghijklmnopqrstuvwxyz'' ''ABCDEFGHIJKLMNOPQRSTUVWXYZ'') c of
        None \<Rightarrow> c | Some u \<Rightarrow> u)"

definition lower :: "string \<Rightarrow> string" where
  "lower s = map lower_char s"

definition upper :: "string \<Rightarrow> string" where
  "upper s = map upper_char s"

text \<open>Lines 78 to 88 of \<^verbatim>\<open>place_optimal_limit_order\<close>: the take-profit and the
  stop-loss price, then both brought to the tick.\<close>

definition tp_sl_prices ::
  "string \<Rightarrow> decimal \<Rightarrow> decimal \<Rightarrow> decimal \<Rightarrow> decimal \<Rightarrow> exn + decimal \<times> decimal" where
  "tp_sl_prices direction current_price tp_percent sl_percent tick_size =
     (let one = dec_of_int 1;
          tp_frac = dec_truediv tp_percent (dec_of_int 100);
          sl_frac = dec_truediv sl_percent (dec_of_int 100)
      in case (if lower direction = ''buy''
               then (case tp_frac of Inl e \<Rightarrow> Inl e | Inr t \<Rightarrow>
                      (case sl_frac of Inl e \<Rightarrow> Inl e | Inr l \<Rightarrow>
                         Inr (dec_mul current_price (dec_add t one),
                              dec_mul current_price (dec_sub one l))))
               else if lower direction = ''sell''
               then (case tp_frac of Inl e \<Rightarrow> Inl e | Inr t \<Rightarrow>
                      (case sl_frac of Inl e \<Rightarrow> Inl e | Inr l \<Rightarrow>
                         Inr (dec_mul current_price (dec_sub one t),
                              dec_mul current_price (dec_add l one))))
               else Inl (ValueError ''Direction must be either buy or sell'')) of
           Inl e \<Rightarrow> Inl e
         | Inr (tp_price, sl_price) \<Rightarrow>
             (case quantize tp_price tick_size of
                Inl e \<Rightarrow> Inl e
              | Inr tp_price' \<Rightarrow>
                  (case quantize sl_price tick_size of
                     Inl e \<Rightarrow> Inl e
                   | Inr sl_price' \<Rightarrow> Inr (tp_price', sl_price'))))"

text \<open>The keyword arguments of the three \<^verbatim>\<open>create_order_v3\<close> calls, lines 91 to 128.\<close>

definition initial_order_args :: "string \<Rightarrow> string \<Rightarrow> decimal \<Rightarrow> decimal \<Rightarrow> int \<Rightarrow> order_request" where
  "initial_order_args symb direction position_size current_price ts =
     \<lparr>symbol = symb, side = upper direction, type = ''MARKET'',
      size = dec_str position_size, price = dec_str current_price,
      timeInForce = ''GOOD_TIL_CANCEL'', timestampSeconds = ts,
      isPositionTpsl = None, reduceOnly = None, triggerPriceType = None, triggerPrice = None\<rparr>"

definition stop_order_args :: "string \<Rightarrow> string \<Rightarrow> decimal \<Rightarrow> decimal \<Rightarrow> int \<Rightarrow> order_request" where
  "stop_order_args symb direction position_size sl_price ts =
     \<lparr>symbol = symb, side = (if lower direction = ''buy'' then ''SELL'' else ''BUY''),
      type = ''STOP_MARKET'',
      size = dec_str position_size, price = dec_str sl_price,
      timeInForce = ''GOOD_TIL_CANCEL'', timestampSeconds = ts,
      isPositionTpsl = Some True, reduceOnly = Some True,
      triggerPriceType = Some ''INDEX'', triggerPrice = Some (dec_str sl_price)\<rparr>"

definition tp_order_args :: "string \<Rightarrow> string \<Rightarrow> decimal \<Rightarrow> decimal \<Rightarrow> int \<Rightarrow> order_request" where
  "tp_order_args symb direction position_size tp_price ts =
     \<lparr>symbol = symb, side = (if lower direction = ''buy'' then ''SELL'' else ''BUY''),
      type = ''TAKE_PROFIT_MARKET'',
      size = dec_str position_size, price = dec_str tp_price,
      timeInForce = ''GOOD_TIL_CANCEL'', timestampSeconds = ts,
      isPositionTpsl = Some True, reduceOnly = Some True,
      triggerPriceType = Some ''INDEX'', triggerPrice = Some (dec_str tp_price)\<rparr>"

text \<open>One order submission: the arguments are evaluated once (reading the clock), the
  call goes through the retry wrapper, the acknowledgement is logged.\<close>

definition submit :: "env \<Rightarrow> string \<Rightarrow> (int \<Rightarrow> order_request) \<Rightarrow> unit prog" where
  "submit ev label args =
     and_then (read_clock ev) (\<lambda>ts.
     and_then (api_call_with_retry (remote (CreateOrderV3 (args ts)) (create_order_v3 ev (args ts))))
       (\<lambda>order. log_info label order))"

text \<open>Lines 76 to 129: sizing, prices and the three submissions, from the values the
  reads returned.\<close>

definition plan_and_submit ::
  "env \<Rightarrow> string \<Rightarrow> string \<Rightarrow> decimal \<Rightarrow> decimal \<Rightarrow> decimal
     \<Rightarrow> account_data \<Rightarrow> decimal \<Rightarrow> decimal \<Rightarrow> decimal \<Rightarrow> unit prog" where
  "plan_and_submit ev symb direction leverage tp_percent sl_percent
       account_data tick_size step_size current_price =
     and_then (pure (calculate_position_size account_data leverage current_price step_size))
       (\<lambda>position_size.
     and_then (pure (tp_sl_prices direction current_price tp_percent sl_percent tick_size))
       (\<lambda>(tp_price, sl_price).
     and_then (submit ev ''Initial Order''
                 (initial_order_args symb direction position_size current_price)) (\<lambda>_.
     and_then (submit ev ''Stop Loss Order''
                 (stop_order_args symb direction position_size sl_price)) (\<lambda>_.
     submit ev ''Take Profit Order''
                 (tp_order_args symb direction position_size tp_price)))))"

text \<open>The first statement, line 72, calls the client directly: whatever it returns
  (also \<^verbatim>\<open>None\<close>) is bound to a name that is not read again; an exception leaves
  the function.\<close>

definition place_optimal_limit_order ::
  "env \<Rightarrow> string \<Rightarrow> string \<Rightarrow> decimal \<Rightarrow> decimal \<Rightarrow> decimal \<Rightarrow> unit prog" where
  "place_optimal_limit_order ev symb direction leverage tp_percent sl_percent s =
     (case remote GetAccountV3 (get_account_v3 ev) s of
        (Raises e, s') \<Rightarrow> (Inl e, s')
      | (Returns accountData, s') \<Rightarrow>
          and_then (fetch_account_data ev) (\<lambda>account_data.
          and_then (fetch_tick_and_step_size ev symb) (\<lambda>(tick_size, step_size).
          and_then (fetch_current_price ev symb) (\<lambda>current_price.
          plan_and_submit ev symb direction leverage tp_percent sl_percent
            account_data tick_size step_size current_price))) s')"

section \<open>The top-level run\<close>

datatype run_outcome =
    Exit int                     \<comment> \<open>the process ends with this exit status\<close>
  | Uncaught exn                 \<comment> \<open>the exception leaves the script: traceback, status not 0\<close>

text \<open>The \<^verbatim>\<open>except Exception\<close> clause of the main block.\<close>

fun is_Exception :: "exn \<Rightarrow> bool" where
  "is_Exception KeyboardInterrupt = False"
| "is_Exception _ = True"

text \<open>The main block. \<open>to_decimal\<close> is \<^verbatim>\<open>decimal.Decimal\<close> on a string:
  \<open>None\<close> where the constructor raises \<^verbatim>\<open>InvalidOperation\<close>. The conversions
  stand before the \<^verbatim>\<open>try\<close>.\<close>

definition main ::
  "(string \<Rightarrow> decimal option) \<Rightarrow> env \<Rightarrow> string list \<Rightarrow> world \<Rightarrow> run_outcome \<times> world" where
  "main to_decimal ev argv s =
     (if length argv \<noteq> 6
      then (Exit 1, emit [Print ''Usage: python buy_btc.py <symbol> <direction> <leverage> <tp_percent> <sl_percent>''] s)
      else
        (case (to_decimal (argv ! 3), to_decimal (argv ! 4), to_decimal (argv ! 5)) of
           (Some leverage, Some tp_percent, Some sl_percent) \<Rightarrow>
             (case place_optimal_limit_order ev (argv ! 1) (argv ! 2) leverage tp_percent sl_percent
                     (emit [Info ''Arguments received''
                              (argv ! 1 @ '', '' @ argv ! 2 @ '', '' @ dec_str leverage @ '', ''
                                 @ dec_str tp_percent @ '', '' @ dec_str sl_percent)] s) of
                (Inr _, s') \<Rightarrow> (Exit 0, s')
              | (Inl e, s') \<Rightarrow>
                  if is_Exception e then (Exit 0, emit [Error e] s') else (Uncaught e, s'))
         | _ \<Rightarrow> (Uncaught InvalidOperation, s)))"

section \<open>Observations on a trace\<close>

text \<open>What a remote call did that the retry wrapper treats as a failure to retry, the
  exception the wrapper then handles, and the events of a run of failed attempts.\<close>

fun transient :: "'a outcome \<Rightarrow> bool" where
  "transient (Returns None) = True"
| "transient (Returns (Some _)) = False"
| "transient (Raises e) = caught_by_retry e"

fun cause :: "'a outcome \<Rightarrow> exn" where
  "cause (Raises e) = e"
| "cause (Returns _) = ValueError ''Empty response received''"

fun failed_attempts :: "endpoint \<Rightarrow> (nat \<Rightarrow> 'a outcome) \<Rightarrow> nat \<Rightarrow> nat list \<Rightarrow> event list" where
  "failed_attempts ep f n [] = []"
| "failed_attempts ep f n (a # as) =
     [Called ep, Warning (a + 1) max_retries (cause (f n)), Sleep (backoff_factor * 2 ^ a)]
       @ failed_attempts ep f (Suc n) as"

fun warnings_of :: "event list \<Rightarrow> (nat \<times> nat \<times> exn) list" where
  "warnings_of [] = []"
| "warnings_of (Warning a m e # es) = (a, m, e) # warnings_of es"
| "warnings_of (_ # es) = warnings_of es"

fun sleeps_of :: "event list \<Rightarrow> rat list" where
  "sleeps_of [] = []"
| "sleeps_of (Sleep d # es) = d # sleeps_of es"
| "sleeps_of (_ # es) = sleeps_of es"

fun calls_of :: "event list \<Rightarrow> endpoint list" where
  "calls_of [] = []"
| "calls_of (Called ep # es) = ep # calls_of es"
| "calls_of (_ # es) = calls_of es"

definition exhausted :: exn where
  "exhausted = PlainException ''Failed to execute API call after 5 attempts''"

section \<open>Exact results\<close>

text \<open>
  The magnitude of a \<^verbatim>\<open>Decimal\<close>, and what it means that an operation of the
  28-digit context did not round: its result denotes the exact sum, difference, product
  or quotient. \<open>quantize_fits x g\<close>: the integer quotient of \<open>x\<close> by \<open>g\<close>, times
  the coefficient of \<open>g\<close>, has at most 28 digits, so that \<^verbatim>\<open>(x // g) * g\<close> neither
  raises nor rounds.
\<close>

definition dec_abs :: "decimal \<Rightarrow> rat" where
  "dec_abs d = of_nat (d_int d) * power_int 10 (d_exp d)"

definition mul_exact :: "decimal \<Rightarrow> decimal \<Rightarrow> bool" where
  "mul_exact a b = (dec_val (dec_mul a b) = dec_val a * dec_val b)"

definition add_exact :: "decimal \<Rightarrow> decimal \<Rightarrow> bool" where
  "add_exact a b = (dec_val (dec_add a b) = dec_val a + dec_val b)"

definition sub_exact :: "decimal \<Rightarrow> decimal \<Rightarrow> bool" where
  "sub_exact a b = (dec_val (dec_sub a b) = dec_val a - dec_val b)"

definition div_exact :: "decimal \<Rightarrow> decimal \<Rightarrow> bool" where
  "div_exact a b =
     (case dec_truediv a b of Inl _ \<Rightarrow> False | Inr r \<Rightarrow> dec_val r = dec_val a / dec_val b)"

definition quantize_fits :: "rat \<Rightarrow> decimal \<Rightarrow> bool" where
  "quantize_fits x g = (nat \<lfloor>\<bar>x\<bar> / dec_abs g\<rfloor> * d_int g < 10 ^ prec)"

text \<open>The multiple of \<open>g\<close> next to \<open>x\<close> in the direction of zero.\<close>

definition towards_zero :: "rat \<Rightarrow> rat \<Rightarrow> rat" where
  "towards_zero x g = (if x < 0 then - of_int \<lfloor>- x / g\<rfloor> else of_int \<lfloor>x / g\<rfloor>) * g"

text \<open>No operation of lines 78 to 88 rounds or raises: the two divisions by 100, the sum and
  the difference with 1, the two products with the price are exact, and both
  quantizations fit.\<close>

definition prices_exact :: "string \<Rightarrow> decimal \<Rightarrow> decimal \<Rightarrow> decimal \<Rightarrow> decimal \<Rightarrow> bool" where
  "prices_exact direction current_price tp_percent sl_percent tick_size =
     (case (dec_truediv tp_percent (dec_of_int 100), dec_truediv sl_percent (dec_of_int 100)) of
        (Inr t, Inr l) \<Rightarrow>
          dec_val t = dec_val tp_percent / 100 \<and> dec_val l = dec_val sl_percent / 100 \<and>
          (if lower direction = ''buy''
           then add_exact t (dec_of_int 1) \<and> sub_exact (dec_of_int 1) l \<and>
                mul_exact current_price (dec_add t (dec_of_int 1)) \<and>
                mul_exact current_price (dec_sub (dec_of_int 1) l) \<and>
                quantize_fits (dec_val current_price * (1 + dec_val tp_percent / 100)) tick_size \<and>
                quantize_fits (dec_val current_price * (1 - dec_val sl_percent / 100)) tick_size
           else sub_exact (dec_of_int 1) t \<and> add_exact l (dec_of_int 1) \<and>
                mul_exact current_price (dec_sub (dec_of_int 1) t) \<and>
                mul_exact current_price (dec_add l (dec_of_int 1)) \<and>
                quantize_fits (dec_val current_price * (1 - dec_val tp_percent / 100)) tick_size \<and>
                quantize_fits (dec_val current_price * (1 + dec_val sl_percent / 100)) tick_size)
      | _ \<Rightarrow> False)"

section \<open>Order submissions on a trace\<close>

text \<open>The requests of the \<^verbatim>\<open>create_order_v3\<close> calls of a trace, one for each call, in
  the order of the calls.\<close>

fun order_of_endpoint :: "endpoint \<Rightarrow> order_request list" where
  "order_of_endpoint (CreateOrderV3 r) = [r]"
| "order_of_endpoint _ = []"

definition orders_of :: "event list \<Rightarrow> order_request list" where
  "orders_of evs = concat (map order_of_endpoint (calls_of evs))"

section \<open>Example environments\<close>

text \<open>The world before a run, and three behaviours of a client function: always a
  timeout, always an empty response, and two failures before a response.\<close>

definition world0 :: world where
  "world0 = \<lparr>trace = [], ncalls = 0, nclock = 0\<rparr>"

definition always_timeout :: "nat \<Rightarrow> string outcome" where
  "always_timeout n = Raises (RequestException ''timeout'')"

definition always_empty :: "nat \<Rightarrow> string outcome" where
  "always_empty n = Returns None"

definition flaky_twice :: "nat \<Rightarrow> string outcome" where
  "flaky_twice n = (if n = 0 then Raises (RequestException ''timeout'')
                    else if n = 1 then Returns None else Returns (Some ''ok''))"

text \<open>A venue that answers every call: balance 1000, one contract \<open>BTC-USDT\<close> with tick
  0.5 and step 0.001, last price 50000, every order acknowledged; and a network that is
  down.\<close>

definition env_ok :: env where
  "env_ok =
     \<lparr>get_account_v3 = (\<lambda>n. Returns (Some ''account'')),
      get_account_balance_v3 = (\<lambda>n. Returns (Some (AvailableBalance (Decimal False 1000 0)))),
      configs_v3 = (\<lambda>n. Returns (Some (PerpetualContracts
                      [Contract ''BTC-USDT'' (Decimal False 5 (- 1)) (Decimal False 1 (- 3))]))),
      ticker_v3 = (\<lambda>symb n. Returns (Some [Decimal False 50000 0])),
      create_order_v3 = (\<lambda>r n. Returns (Some ''ack'')),
      time = (\<lambda>n. 1700000000)\<rparr>"

definition env_down :: env where
  "env_down =
     \<lparr>get_account_v3 = (\<lambda>n. Raises (RequestException ''connection refused'')),
      get_account_balance_v3 = (\<lambda>n. Raises (RequestException ''connection refused'')),
      configs_v3 = (\<lambda>n. Raises (RequestException ''connection refused'')),
      ticker_v3 = (\<lambda>symb n. Raises (RequestException ''connection refused'')),
      create_order_v3 = (\<lambda>r n. Raises (RequestException ''connection refused'')),
      time = (\<lambda>n. 1700000000)\<rparr>"

text \<open>A stand-in for \<^verbatim>\<open>decimal.Decimal\<close> on the strings of the examples.\<close>

definition example_to_decimal :: "string \<Rightarrow> decimal option" where
  "example_to_decimal s =
     (if s = ''10'' then Some (Decimal False 10 0)
      else if s = ''5'' then Some (Decimal False 5 0)
      else if s = ''2'' then Some (Decimal False 2 0)
      else None)"

section \<open>The retry wrapper\<close>

lemma warnings_of_append: "warnings_of (xs @ ys) = warnings_of xs @ warnings_of ys"
  by (induction xs rule: warnings_of.induct) auto

lemma sleeps_of_append: "sleeps_of (xs @ ys) = sleeps_of xs @ sleeps_of ys"
  by (induction xs rule: sleeps_of.induct) auto

lemma calls_of_append: "calls_of (xs @ ys) = calls_of xs @ calls_of ys"
  by (induction xs rule: calls_of.induct) auto

lemma retry_loop_all_fail:
  "(\<forall>j<length as. transient (f (ncalls s + j))) \<Longrightarrow>
   retry_loop (remote ep f) as s =
     (Inl (PlainException ''Failed to execute API call after 5 attempts''),
      s\<lparr>trace := trace s @ failed_attempts ep f (ncalls s) as, ncalls := ncalls s + length as\<rparr>)"
proof (induction as arbitrary: s)
  case Nil
  then show ?case by simp
next
  case (Cons a as)
  let ?s1 = "(emit [Called ep] s)\<lparr>ncalls := Suc (ncalls s)\<rparr>"
  have t0: "transient (f (ncalls s))" using Cons.prems by auto
  have rest: "\<forall>j<length as. transient (f (ncalls (on_failure a (cause (f (ncalls s))) ?s1) + j))"
    using Cons.prems by (auto simp: on_failure_def emit_def)
  show ?case
  proof (cases "f (ncalls s)")
    case (Returns x)
    with t0 have x: "x = None" by (cases x) auto
    show ?thesis using Returns x Cons.IH[OF rest]
      by (simp add: remote_def on_failure_def emit_def)
  next
    case (Raises e)
    with t0 have "caught_by_retry e" by simp
    then show ?thesis using Raises Cons.IH[OF rest]
      by (simp add: remote_def on_failure_def emit_def)
  qed
qed

lemma retry_loop_fail_then_succeed:
  "k < length as \<Longrightarrow> (\<forall>j<k. transient (f (ncalls s + j))) \<Longrightarrow> f (ncalls s + k) = Returns (Some r) \<Longrightarrow>
   retry_loop (remote ep f) as s =
     (Inr r,
      s\<lparr>trace := trace s @ failed_attempts ep f (ncalls s) (take k as) @ [Called ep],
        ncalls := ncalls s + k + 1\<rparr>)"
proof (induction as arbitrary: s k)
  case Nil
  then show ?case by simp
next
  case (Cons a as)
  show ?case
  proof (cases k)
    case 0
    then show ?thesis using Cons.prems by (simp add: remote_def emit_def)
  next
    case (Suc k')
    let ?s1 = "(emit [Called ep] s)\<lparr>ncalls := Suc (ncalls s)\<rparr>"
    let ?s2 = "on_failure a (cause (f (ncalls s))) ?s1"
    have t0: "transient (f (ncalls s))" using Cons.prems Suc by auto
    have n2: "ncalls ?s2 = Suc (ncalls s)" by (simp add: on_failure_def emit_def)
    have a1: "k' < length as" using Cons.prems Suc by simp
    have a2: "\<forall>j<k'. transient (f (ncalls ?s2 + j))"
      using Cons.prems(2) Suc n2 by (metis Suc_less_eq add_Suc_shift)
    have a3: "f (ncalls ?s2 + k') = Returns (Some r)"
      using Cons.prems(3) Suc n2 by simp
    note IH = Cons.IH[OF a1 a2 a3]
    show ?thesis
    proof (cases "f (ncalls s)")
      case (Returns x)
      with t0 have x: "x = None" by (cases x) auto
      show ?thesis using Returns x IH Suc
        by (simp add: remote_def on_failure_def emit_def)
    next
      case (Raises e)
      with t0 have "caught_by_retry e" by simp
      then show ?thesis using Raises IH Suc
        by (simp add: remote_def on_failure_def emit_def)
    qed
  qed
qed

lemma warnings_failed_attempts:
  "warnings_of (failed_attempts ep f n as) =
     map (\<lambda>(j, a). (a + 1, max_retries, cause (f (n + j)))) (enumerate 0 as)"
proof (induction as arbitrary: n)
  case Nil show ?case by simp
next
  case (Cons a as)
  have "map (\<lambda>(j, a). (a + 1, max_retries, cause (f (n + j)))) (enumerate (Suc 0) as)
      = map (\<lambda>(j, a). (a + 1, max_retries, cause (f (Suc n + j)))) (enumerate 0 as)"
    by (simp add: enumerate_Suc_eq map_prod_def case_prod_beta comp_def)  
  then show ?case using Cons.IH[of "Suc n"] by simp
qed

lemma sleeps_failed_attempts:
  "sleeps_of (failed_attempts ep f n as) = map (\<lambda>a. backoff_factor * 2 ^ a) as"
  by (induction as arbitrary: n) auto

lemma calls_failed_attempts:
  "calls_of (failed_attempts ep f n as) = replicate (length as) ep"
  by (induction as arbitrary: n) auto

lemma upt_0_5: "[0..<5] = [0, 1, 2, 3, 4]"
  by code_simp

lemma attempts_unfold: "[0..<max_retries] = [0, 1, 2, 3, 4]"
  unfolding max_retries_def by (rule upt_0_5)

text \<open>
  Claim C1, as the code has it. A remote call that fails in a way the wrapper retries
  (a \<^verbatim>\<open>RequestException\<close>, a \<^verbatim>\<open>ValueError\<close> or an empty response) exactly
  \<open>k < 5\<close> times and then returns a response: the wrapper returns that response
  after \<open>k + 1\<close> calls, with exactly \<open>k\<close> warnings and the waits
  \<open>0.5 * 2^j\<close> for \<open>j < k\<close>. A call that fails so on each of five attempts:
  the wrapper makes exactly five calls, logs five warnings, waits \<open>0.5 * 2^j\<close> after
  each failed attempt (the last one too), the waits strictly increasing, and raises a plain
  exception with a fixed message, which does not hold the cause.
\<close>

theorem retry_outcomes:
  "(k < max_retries \<and> (\<forall>j<k. transient (f (ncalls s + j))) \<and> f (ncalls s + k) = Returns (Some r)
      \<longrightarrow> (\<exists>evs. api_call_with_retry (remote ep f) s
                   = (Inr r, s\<lparr>trace := trace s @ evs, ncalls := ncalls s + k + 1\<rparr>)
               \<and> warnings_of evs = map (\<lambda>j. (j + 1, max_retries, cause (f (ncalls s + j)))) [0..<k]
               \<and> length (warnings_of evs) = k
               \<and> sleeps_of evs = map (\<lambda>j. backoff_factor * 2 ^ j) [0..<k]
               \<and> calls_of evs = replicate (k + 1) ep))
   \<and> ((\<forall>j<max_retries. transient (f (ncalls s + j)))
      \<longrightarrow> (\<exists>evs. api_call_with_retry (remote ep f) s
                   = (Inl exhausted, s\<lparr>trace := trace s @ evs, ncalls := ncalls s + max_retries\<rparr>)
               \<and> calls_of evs = replicate max_retries ep
               \<and> warnings_of evs = map (\<lambda>j. (j + 1, max_retries, cause (f (ncalls s + j)))) [0..<max_retries]
               \<and> sleeps_of evs = map (\<lambda>j. backoff_factor * 2 ^ j) [0..<max_retries]
               \<and> sorted_wrt (<) (sleeps_of evs)))"
proof (intro conjI impI)
  assume h: "k < max_retries \<and> (\<forall>j<k. transient (f (ncalls s + j))) \<and> f (ncalls s + k) = Returns (Some r)"
  let ?as = "[0..<max_retries]"
  let ?evs = "failed_attempts ep f (ncalls s) (take k ?as) @ [Called ep]"
  have tk: "take k ?as = [0..<k]" using h by (simp add: take_upt)
  have en: "enumerate 0 [0..<k] = map (\<lambda>j. (j, j)) [0..<k]"
    by (simp add: enumerate_eq_zip zip_same_conv_map)
  have 1: "api_call_with_retry (remote ep f) s
        = (Inr r, s\<lparr>trace := trace s @ ?evs, ncalls := ncalls s + k + 1\<rparr>)"
    unfolding api_call_with_retry_def
    using retry_loop_fail_then_succeed[of k ?as f s r ep] h by simp
  have 2: "warnings_of ?evs = map (\<lambda>j. (j + 1, max_retries, cause (f (ncalls s + j)))) [0..<k]"
    by (simp add: warnings_of_append warnings_failed_attempts tk en comp_def)
  have 3: "sleeps_of ?evs = map (\<lambda>j. backoff_factor * 2 ^ j) [0..<k]"
    by (simp add: sleeps_of_append sleeps_failed_attempts tk)
  have 4: "calls_of ?evs = replicate (k + 1) ep"
    by (simp add: calls_of_append calls_failed_attempts tk replicate_append_same)
  from 1 2 3 4 show "\<exists>evs. api_call_with_retry (remote ep f) s
                   = (Inr r, s\<lparr>trace := trace s @ evs, ncalls := ncalls s + k + 1\<rparr>)
               \<and> warnings_of evs = map (\<lambda>j. (j + 1, max_retries, cause (f (ncalls s + j)))) [0..<k]
               \<and> length (warnings_of evs) = k
               \<and> sleeps_of evs = map (\<lambda>j. backoff_factor * 2 ^ j) [0..<k]
               \<and> calls_of evs = replicate (k + 1) ep"
    by (intro exI[of _ ?evs]) simp
next
  assume h: "\<forall>j<max_retries. transient (f (ncalls s + j))"
  let ?as = "[0..<max_retries]"
  let ?evs = "failed_attempts ep f (ncalls s) ?as"
  have en: "enumerate 0 ?as = map (\<lambda>j. (j, j)) ?as"
    by (simp add: enumerate_eq_zip zip_same_conv_map)
  have 1: "api_call_with_retry (remote ep f) s
        = (Inl exhausted, s\<lparr>trace := trace s @ ?evs, ncalls := ncalls s + max_retries\<rparr>)"
    unfolding api_call_with_retry_def exhausted_def
    using retry_loop_all_fail[of ?as f s ep] h by simp
  have 2: "warnings_of ?evs = map (\<lambda>j. (j + 1, max_retries, cause (f (ncalls s + j)))) ?as"
    by (simp add: warnings_failed_attempts en comp_def)
  have 3: "sleeps_of ?evs = map (\<lambda>j. backoff_factor * 2 ^ j) ?as"
    by (simp add: sleeps_failed_attempts)
  have 4: "calls_of ?evs = replicate max_retries ep"
    by (simp add: calls_failed_attempts)
  have 5: "sorted_wrt (<) (sleeps_of ?evs)"
    unfolding 3 by (simp add: attempts_unfold backoff_factor_def)
  from 1 2 3 4 5 show "\<exists>evs. api_call_with_retry (remote ep f) s
                   = (Inl exhausted, s\<lparr>trace := trace s @ evs, ncalls := ncalls s + max_retries\<rparr>)
               \<and> calls_of evs = replicate max_retries ep
               \<and> warnings_of evs = map (\<lambda>j. (j + 1, max_retries, cause (f (ncalls s + j)))) [0..<max_retries]
               \<and> sleeps_of evs = map (\<lambda>j. backoff_factor * 2 ^ j) [0..<max_retries]
               \<and> sorted_wrt (<) (sleeps_of evs)"
    by (intro exI[of _ ?evs]) simp
qed

text \<open>
  Claim C1 as stated fails: a call that always times out and a call that always returns
  an empty response end in the same exception, although their last causes differ; and
  there are five waits for five attempts, the last one after the last attempt.
\<close>

theorem retry_no_cause_counterexample:
  "fst (api_call_with_retry (remote GetAccountBalanceV3 always_timeout) world0)
     = Inl (PlainException ''Failed to execute API call after 5 attempts'')
   \<and> fst (api_call_with_retry (remote GetAccountBalanceV3 always_empty) world0)
     = Inl (PlainException ''Failed to execute API call after 5 attempts'')
   \<and> last (warnings_of (trace (snd (api_call_with_retry (remote GetAccountBalanceV3 always_timeout) world0))))
     = (5, 5, RequestException ''timeout'')
   \<and> last (warnings_of (trace (snd (api_call_with_retry (remote GetAccountBalanceV3 always_empty) world0))))
     = (5, 5, ValueError ''Empty response received'')
   \<and> sleeps_of (trace (snd (api_call_with_retry (remote GetAccountBalanceV3 always_timeout) world0)))
     = [1/2, 1, 2, 4, 8]"
  by (simp add: api_call_with_retry_def max_retries_def upt_0_5 remote_def always_timeout_def
        always_empty_def world0_def emit_def on_failure_def backoff_factor_def)

text \<open>The theorem of C1 at a call that fails twice and at a call that always fails.\<close>

theorem retry_outcomes_witness:
  "fst (api_call_with_retry (remote GetAccountBalanceV3 flaky_twice) world0) = Inr ''ok''
   \<and> length (warnings_of (trace (snd (api_call_with_retry (remote GetAccountBalanceV3 flaky_twice) world0)))) = 2
   \<and> fst (api_call_with_retry (remote GetAccountBalanceV3 always_empty) world0) = Inl exhausted
   \<and> ncalls (snd (api_call_with_retry (remote GetAccountBalanceV3 always_empty) world0)) = 5"
proof -
  have a: "(2::nat) < max_retries \<and> (\<forall>j<2. transient (flaky_twice (ncalls world0 + j)))
        \<and> flaky_twice (ncalls world0 + 2) = Returns (Some ''ok'')"
    by (auto simp: max_retries_def flaky_twice_def world0_def less_Suc_eq numeral_2_eq_2)
  have b: "\<forall>j<max_retries. transient (always_empty (ncalls world0 + j))"
    by (simp add: always_empty_def)
  from retry_outcomes[of 2 flaky_twice world0 "''ok''" GetAccountBalanceV3] a
  obtain evs where e: "api_call_with_retry (remote GetAccountBalanceV3 flaky_twice) world0
       = (Inr ''ok'', world0\<lparr>trace := trace world0 @ evs, ncalls := ncalls world0 + 2 + 1\<rparr>)"
     "length (warnings_of evs) = 2" by blast
  from retry_outcomes[of 0 always_empty world0 "''ok''" GetAccountBalanceV3] b
  obtain evs' where e': "api_call_with_retry (remote GetAccountBalanceV3 always_empty) world0
       = (Inl exhausted, world0\<lparr>trace := trace world0 @ evs', ncalls := ncalls world0 + max_retries\<rparr>)"
    by blast
  show ?thesis using e e' by (simp add: world0_def max_retries_def)
qed

section \<open>Decimal arithmetic: digits, magnitudes and floor division\<close>


lemma ndigits_pos: "0 < ndigits n"
  by (subst ndigits.simps) simp

lemma ndigits_upper: "n < 10 ^ ndigits n"
proof (induction n rule: ndigits.induct)
  case (1 n)
  show ?case
  proof (cases "n < 10")
    case True
    then show ?thesis by (subst ndigits.simps) simp
  next
    case False
    then have "n div 10 < 10 ^ ndigits (n div 10)" using 1 by simp
    then have "n < 10 * 10 ^ ndigits (n div 10)" by (simp add: div_less_iff_less_mult mult.commute)
    then show ?thesis using False by (subst ndigits.simps) simp
  qed
qed

lemma ndigits_lower: "0 < n \<Longrightarrow> 10 ^ (ndigits n - 1) \<le> n"
proof (induction n rule: ndigits.induct)
  case (1 n)
  show ?case
  proof (cases "n < 10")
    case True
    then show ?thesis using 1(2) by (subst ndigits.simps) simp
  next
    case False
    then have pos: "0 < n div 10" by (simp add: div_greater_zero_iff)
    have "10 ^ (ndigits (n div 10) - 1) \<le> n div 10" using 1(1)[OF False pos] .
    then have "10 * 10 ^ (ndigits (n div 10) - 1) \<le> n"
      by (simp add: less_eq_div_iff_mult_less_eq mult.commute)
    moreover have "ndigits n - 1 = Suc (ndigits (n div 10) - 1)"
      using False ndigits_pos[of "n div 10"] by (subst ndigits.simps) simp
    ultimately show ?thesis by simp
  qed
qed

lemma ndigits_le_iff: "0 < k \<Longrightarrow> ndigits n \<le> k \<longleftrightarrow> n < 10 ^ k"
proof
  assume "ndigits n \<le> k"
  then have "(10::nat) ^ ndigits n \<le> 10 ^ k" by (simp add: power_increasing)
  with ndigits_upper[of n] show "n < 10 ^ k" by linarith
next
  assume k: "0 < k" and lt: "n < 10 ^ k"
  show "ndigits n \<le> k"
  proof (cases "n = 0")
    case True
    then show ?thesis using k by (subst ndigits.simps) simp
  next
    case False
    then have "10 ^ (ndigits n - 1) \<le> n" using ndigits_lower by simp
    with lt have "(10::nat) ^ (ndigits n - 1) < 10 ^ k" by linarith
    then have "ndigits n - 1 < k" by (simp add: power_strict_increasing_iff)
    then show ?thesis by simp
  qed
qed

lemma dec_fix_exact: "d_int d < 10 ^ prec \<Longrightarrow> dec_fix d = d"
  using ndigits_le_iff[of prec "d_int d"] by (simp add: dec_fix_def prec_def Let_def)


lemma dec_mul_exact:
  assumes "d_int a * d_int b < 10 ^ prec"
  shows "dec_mul a b = Decimal (d_sign a \<noteq> d_sign b) (d_int a * d_int b) (d_exp a + d_exp b)"
    and "dec_val (dec_mul a b) = dec_val a * dec_val b"
proof -
  show 1: "dec_mul a b = Decimal (d_sign a \<noteq> d_sign b) (d_int a * d_int b) (d_exp a + d_exp b)"
    unfolding dec_mul_def using assms by (simp add: dec_fix_exact)
  show "dec_val (dec_mul a b) = dec_val a * dec_val b"
    unfolding 1 by (simp add: dec_val_def power_int_add)
qed


lemma dec_abs_eq: "dec_abs d = \<bar>dec_val d\<bar>"
  by (simp add: dec_abs_def dec_val_def abs_mult)

lemma dec_abs_bounds:
  assumes "d_int d \<noteq> 0"
  shows "power_int 10 (adjusted d) \<le> dec_abs d" and "dec_abs d < power_int 10 (adjusted d + 1)"
proof -
  let ?n = "ndigits (d_int d)"
  have lo: "(10::rat) ^ (?n - 1) \<le> of_nat (d_int d)"
    using ndigits_lower[of "d_int d"] assms
    by (metis of_nat_le_iff of_nat_numeral of_nat_power bot_nat_0.not_eq_extremum)
  have hi: "of_nat (d_int d) < (10::rat) ^ ?n"
    using ndigits_upper[of "d_int d"]
    by (metis of_nat_less_iff of_nat_numeral of_nat_power)
  have p: "(0::rat) < power_int 10 (d_exp d)" by simp
  have a1: "power_int (10::rat) (adjusted d) = 10 ^ (?n - 1) * power_int 10 (d_exp d)"
    using ndigits_pos[of "d_int d"]
    by (simp add: adjusted_def power_int_add power_int_diff flip: power_int_of_nat)
  show "power_int 10 (adjusted d) \<le> dec_abs d"
    unfolding a1 dec_abs_def using lo p by (simp add: mult_right_mono)
  have a2: "power_int (10::rat) (adjusted d + 1) = 10 ^ ?n * power_int 10 (d_exp d)"
    by (simp add: adjusted_def power_int_add flip: power_int_of_nat)
  show "dec_abs d < power_int 10 (adjusted d + 1)"
    unfolding a2 dec_abs_def using hi p by (simp add: mult_strict_right_mono)
qed


lemma power_int_nat_diff:
  "e2 \<le> e1 \<Longrightarrow> (10::rat) ^ nat (e1 - e2) = power_int 10 e1 / power_int 10 e2"
  by (metis power_int_diff power_int_of_nat int_nat_eq diff_ge_0_iff_ge zero_neq_numeral)

lemma ratio_aligned:
  assumes "d_int b \<noteq> 0"
  shows "dec_abs a / dec_abs b =
     of_nat (if d_exp b \<le> d_exp a then d_int a * 10 ^ nat (d_exp a - d_exp b) else d_int a)
   / of_nat (if d_exp b \<le> d_exp a then d_int b else d_int b * 10 ^ nat (d_exp b - d_exp a))"
proof (cases "d_exp b \<le> d_exp a")
  case True
  then show ?thesis by (simp add: dec_abs_def power_int_nat_diff)
next
  case False
  then have "d_exp a \<le> d_exp b" by simp
  then show ?thesis using False by (simp add: dec_abs_def power_int_nat_diff)
qed

lemma dec_floordiv_eq:
  assumes b: "d_int b \<noteq> 0"
  shows "dec_floordiv a b =
     (if nat \<lfloor>dec_abs a / dec_abs b\<rfloor> < 10 ^ prec
      then Inr (Decimal (d_sign a \<noteq> d_sign b) (nat \<lfloor>dec_abs a / dec_abs b\<rfloor>) 0)
      else Inl InvalidOperation)"
proof -
  let ?Q = "dec_abs a / dec_abs b"
  let ?xd = "adjusted a - adjusted b"
  have bpos: "0 < dec_abs b" using b by (simp add: dec_abs_def)
  show ?thesis
  proof (cases "d_int a = 0")
    case True
    then have Q0: "?Q = 0" by (simp add: dec_abs_def)
    show ?thesis unfolding Q0 using True b by (simp add: dec_floordiv_def)
  next
    case a: False
    have apos: "0 < dec_abs a" using a by (simp add: dec_abs_def)
    note ba = dec_abs_bounds[OF a]
    note bb = dec_abs_bounds[OF b]
    have Qlt: "?Q < power_int 10 (?xd + 1)"
    proof -
      have "?Q < power_int 10 (adjusted a + 1) / dec_abs b"
        using ba(2) bpos by (simp add: divide_strict_right_mono)
      also have "\<dots> \<le> power_int 10 (adjusted a + 1) / power_int 10 (adjusted b)"
        using bb(1) by (simp add: frac_le)
      also have "\<dots> = power_int 10 (?xd + 1)"
        by (simp add: power_int_diff power_int_add)
      finally show ?thesis .
    qed
    have Qgt: "power_int 10 (?xd - 1) < ?Q"
    proof -
      have "power_int 10 (?xd - 1) = power_int (10::rat) (adjusted a) / power_int 10 (adjusted b + 1)"
        by (simp add: power_int_diff power_int_add)
      also have "\<dots> < power_int 10 (adjusted a) / dec_abs b"
        using bb(2) bpos by (simp add: divide_strict_left_mono)
      also have "\<dots> \<le> ?Q"
        using ba(1) bpos by (simp add: divide_right_mono)
      finally show ?thesis .
    qed
    consider (small) "?xd \<le> - 2" | (mid) "- 2 < ?xd" "?xd \<le> int prec" | (big) "int prec < ?xd"
      by linarith
    then show ?thesis
    proof cases
      case small
      then have "power_int (10::rat) (?xd + 1) \<le> power_int 10 (- 1)"
        by (intro power_int_increasing) auto
      with Qlt have "?Q < 1" by simp
      moreover have "0 \<le> ?Q" using apos bpos by simp
      ultimately have F0: "\<lfloor>?Q\<rfloor> = 0" by linarith
      show ?thesis unfolding F0 using small a b by (simp add: dec_floordiv_def)
    next
      case mid
      let ?n1 = "if d_exp b \<le> d_exp a then d_int a * 10 ^ nat (d_exp a - d_exp b) else d_int a"
      let ?n2 = "if d_exp b \<le> d_exp a then d_int b else d_int b * 10 ^ nat (d_exp b - d_exp a)"
      have "nat \<lfloor>?Q\<rfloor> = ?n1 div ?n2"
        unfolding ratio_aligned[OF b] floor_divide_of_nat_eq by simp
      then have N: "nat \<lfloor>?Q\<rfloor> = ?n1 div ?n2" .
      show ?thesis unfolding N using mid a b by (simp add: dec_floordiv_def Let_def)
    next
      case big
      then have "power_int (10::rat) (int prec) \<le> power_int 10 (?xd - 1)"
        by (intro power_int_increasing) auto
      with Qgt have "(10::rat) ^ prec < ?Q" by simp
      then have "rat_of_int (10 ^ prec) \<le> ?Q" by simp
      then have "(10::int) ^ prec \<le> \<lfloor>?Q\<rfloor>" by (simp only: le_floor_iff)
      then have "int (10 ^ prec) \<le> \<lfloor>?Q\<rfloor>" by simp
      then have nl: "\<not> nat \<lfloor>?Q\<rfloor> < 10 ^ prec" by linarith
      show ?thesis using nl big a b by (simp add: dec_floordiv_def Let_def)
    qed
  qed
qed


lemma dec_val_abs: "dec_val d = (if d_sign d then - dec_abs d else dec_abs d)"
  by (simp add: dec_val_def dec_abs_def)

lemma dec_abs_ge0: "0 \<le> dec_abs d"
  by (simp add: dec_abs_def)

lemma dec_abs_eq0: "dec_abs d = 0 \<longleftrightarrow> d_int d = 0"
  by (simp add: dec_abs_def)

lemma dec_abs_nonneg: "0 \<le> dec_val d \<Longrightarrow> dec_abs d = dec_val d"
  using dec_abs_ge0[of d] by (simp add: dec_val_abs split: if_splits)

lemma dec_val_pos: "0 < dec_val d \<Longrightarrow> \<not> d_sign d \<and> d_int d \<noteq> 0"
  using dec_abs_ge0[of d] dec_abs_eq0[of d] by (auto simp: dec_val_abs split: if_splits)

lemma dec_val_neg: "dec_val d < 0 \<Longrightarrow> d_sign d"
  using dec_abs_ge0[of d] by (auto simp: dec_val_abs split: if_splits)

lemma quantize_eq:
  assumes g: "d_int g \<noteq> 0" and fits: "quantize_fits (dec_val x) g"
  shows "quantize x g =
     Inr (Decimal (d_sign x) (nat \<lfloor>dec_abs x / dec_abs g\<rfloor> * d_int g) (d_exp g))"
proof -
  let ?q = "nat \<lfloor>dec_abs x / dec_abs g\<rfloor>"
  have f: "?q * d_int g < 10 ^ prec" using fits by (simp add: quantize_fits_def dec_abs_eq)
  have "1 \<le> d_int g" using g by simp
  then have "?q * 1 \<le> ?q * d_int g" by (rule mult_le_mono2)
  with f have q: "?q < 10 ^ prec" by linarith
  have 1: "dec_floordiv x g = Inr (Decimal (d_sign x \<noteq> d_sign g) ?q 0)"
    using dec_floordiv_eq[OF g, of x] q by simp
  have 2: "dec_mul (Decimal (d_sign x \<noteq> d_sign g) ?q 0) g
         = Decimal (d_sign x) (?q * d_int g) (d_exp g)"
  proof -
    have "d_int (Decimal (d_sign x \<noteq> d_sign g) ?q 0) * d_int g < 10 ^ prec" using f by simp
    from dec_mul_exact(1)[OF this]
    have A: "dec_mul (Decimal (d_sign x \<noteq> d_sign g) ?q 0) g
        = Decimal ((d_sign x \<noteq> d_sign g) \<noteq> d_sign g) (?q * d_int g) (d_exp g)"
      by (simp only: decimal.sel add_0)
    have B: "((d_sign x \<noteq> d_sign g) \<noteq> d_sign g) = d_sign x" by blast
    show ?thesis using A by (simp only: B)
  qed
  show ?thesis by (simp only: quantize_def 1 2 sum.case)
qed

lemma quantize_value:
  assumes g: "0 < dec_val g" and fits: "quantize_fits (dec_val x) g"
  shows "\<exists>r. quantize x g = Inr r \<and> dec_val r = towards_zero (dec_val x) (dec_val g)"
proof -
  have g0: "d_int g \<noteq> 0" and gs: "\<not> d_sign g" using dec_val_pos[OF g] by auto
  have ag: "dec_abs g = dec_val g" using g by (simp add: dec_abs_nonneg)
  let ?q = "nat \<lfloor>dec_abs x / dec_abs g\<rfloor>"
  have qn: "0 \<le> \<lfloor>dec_abs x / dec_abs g\<rfloor>"
    using g ag by (simp add: dec_abs_eq)
  have v: "dec_val (Decimal (d_sign x) (?q * d_int g) (d_exp g))
         = (if d_sign x then - 1 else 1) * of_int \<lfloor>dec_abs x / dec_abs g\<rfloor> * dec_val g"
    using gs qn by (simp add: dec_val_def)
  have "(if d_sign x then - 1 else 1) * of_int \<lfloor>dec_abs x / dec_abs g\<rfloor> * dec_val g
        = towards_zero (dec_val x) (dec_val g)"
  proof (cases "dec_val x < 0")
    case True
    then have "d_sign x" by (rule dec_val_neg)
    moreover have "dec_abs x = - dec_val x" using True by (simp add: dec_abs_eq)
    ultimately show ?thesis using True ag by (simp add: towards_zero_def)
  next
    case False
    then have ax: "dec_abs x = dec_val x" by (simp add: dec_abs_eq)
    show ?thesis
    proof (cases "d_sign x")
      case True
      with False have "dec_val x = 0"
        using dec_abs_ge0[of x] by (auto simp: dec_val_abs)
      then show ?thesis using False ax by (simp add: towards_zero_def)
    next
      case F: False
      then show ?thesis using False ax ag by (simp add: towards_zero_def)
    qed
  qed
  with v quantize_eq[OF g0 fits] show ?thesis by simp
qed

lemma towards_zero_nonneg:
  assumes "0 \<le> x" "0 < g"
  shows "towards_zero x g = of_int \<lfloor>x / g\<rfloor> * g"
    and "0 \<le> towards_zero x g" and "towards_zero x g \<le> x" and "x < towards_zero x g + g"
    and "x < g \<Longrightarrow> towards_zero x g = 0"
proof -
  show 1: "towards_zero x g = of_int \<lfloor>x / g\<rfloor> * g" using assms by (simp add: towards_zero_def)
  have f0: "0 \<le> \<lfloor>x / g\<rfloor>" using assms by simp
  show "0 \<le> towards_zero x g" unfolding 1 using f0 assms by simp
  have "of_int \<lfloor>x / g\<rfloor> \<le> x / g" by simp
  then have "of_int \<lfloor>x / g\<rfloor> * g \<le> x" using assms(2) by (simp only: pos_le_divide_eq)
  then show "towards_zero x g \<le> x" unfolding 1 .
  have "x / g < of_int \<lfloor>x / g\<rfloor> + 1" by linarith
  then have "x < (of_int \<lfloor>x / g\<rfloor> + 1) * g" using assms(2) by (simp add: pos_divide_less_eq)
  then show "x < towards_zero x g + g" unfolding 1 by (simp add: algebra_simps)
  assume "x < g"
  then have "x / g < 1" using assms(2) by simp
  moreover have "0 \<le> x / g" using assms by simp
  ultimately have "\<lfloor>x / g\<rfloor> = 0" by linarith
  then show "towards_zero x g = 0" unfolding 1 by simp
qed


text \<open>Sufficient conditions: a product or a sum whose unrounded coefficient has at most
  28 digits is exact.\<close>
lemma mul_exact_small: "d_int a * d_int b < 10 ^ prec \<Longrightarrow> mul_exact a b"
  unfolding mul_exact_def by (rule dec_mul_exact(2))

lemma aligned_value:
  assumes "x \<le> d_exp a"
  shows "of_int ((if d_sign a then - 1 else 1) * int (d_int a) * 10 ^ nat (d_exp a - x))
           * power_int 10 x = dec_val a"
proof -
  have "(10::rat) ^ nat (d_exp a - x) * power_int 10 x = power_int 10 (d_exp a)"
    using assms by (simp add: power_int_nat_diff)
  then show ?thesis by (simp add: dec_val_def mult.assoc)
qed

lemma add_exact_small:
  assumes "\<bar>(if d_sign a then - 1 else 1) * int (d_int a) * 10 ^ nat (d_exp a - min (d_exp a) (d_exp b))
          + (if d_sign b then - 1 else 1) * int (d_int b) * 10 ^ nat (d_exp b - min (d_exp a) (d_exp b))\<bar>
           < 10 ^ prec"
  shows "add_exact a b"
proof -
  define x where "x = min (d_exp a) (d_exp b)"
  define ia where "ia = (if d_sign a then - 1 else 1) * int (d_int a) * 10 ^ nat (d_exp a - x)"
  define ib where "ib = (if d_sign b then - 1 else 1) * int (d_int b) * 10 ^ nat (d_exp b - x)"
  define z where "z = ia + ib"
  have small: "\<bar>z\<bar> < 10 ^ prec" using assms unfolding z_def ia_def ib_def x_def .
  have va: "of_int ia * power_int 10 x = dec_val a"
    unfolding ia_def by (rule aligned_value) (simp add: x_def)
  have vb: "of_int ib * power_int 10 x = dec_val b"
    unfolding ib_def by (rule aligned_value) (simp add: x_def)
  have sum: "of_int z * power_int 10 x = dec_val a + dec_val b"
    unfolding va[symmetric] vb[symmetric] z_def by (simp only: of_int_add distrib_right)
  have unf: "dec_add a b =
        (if d_int a = 0 \<and> d_int b = 0 then dec_fix (Decimal (d_sign a \<and> d_sign b) 0 x)
         else dec_fix (Decimal (z < 0) (nat \<bar>z\<bar>) x))"
    unfolding dec_add_def Let_def z_def ia_def ib_def x_def ..
  show ?thesis
  proof (cases "d_int a = 0 \<and> d_int b = 0")
    case True
    then have "dec_add a b = Decimal (d_sign a \<and> d_sign b) 0 x"
      unfolding unf by (simp add: dec_fix_exact)
    then have "dec_val (dec_add a b) = 0" by (simp add: dec_val_def)
    moreover have "dec_val a = 0" "dec_val b = 0" using True by (simp_all add: dec_val_def)
    ultimately show ?thesis by (simp add: add_exact_def)
  next
    case False
    have "nat \<bar>z\<bar> < 10 ^ prec" using small by (simp add: nat_less_iff)
    then have fx: "dec_fix (Decimal (z < 0) (nat \<bar>z\<bar>) x) = Decimal (z < 0) (nat \<bar>z\<bar>) x"
      by (intro dec_fix_exact) simp
    have "dec_add a b = Decimal (z < 0) (nat \<bar>z\<bar>) x"
      unfolding unf fx using False by (rule if_not_P)
    moreover have "dec_val (Decimal (z < 0) (nat \<bar>z\<bar>) x) = of_int z * power_int 10 x"
      by (cases "z < 0") (simp_all add: dec_val_def)
    ultimately have "dec_val (dec_add a b) = dec_val a + dec_val b" using sum by (simp only:)
    then show ?thesis by (simp only: add_exact_def)
  qed
qed


lemma sub_exact_from_add: "add_exact a (dec_neg b) \<Longrightarrow> sub_exact a b"
  by (simp add: add_exact_def sub_exact_def dec_sub_def dec_neg_def dec_val_def)

lemmas dec_eval = dec_floordiv_def dec_truediv_def dec_mul_def dec_add_def dec_sub_def dec_neg_def
  dec_fix_def dec_of_int_def adjusted_def prec_def quantize_def Let_def ndigits.simps strip_zeros.simps

lemma floor_rat_numeral_div:
  "\<lfloor>(numeral a :: rat) / numeral b\<rfloor> = numeral a div numeral b"
  using floor_divide_of_int_eq[of "numeral a" "numeral b", where ?'a = rat] by simp

lemmas val_eval = dec_val_def dec_abs_def quantize_fits_def mul_exact_def add_exact_def
  sub_exact_def div_exact_def towards_zero_def floor_rat_numeral_div




section \<open>Bringing a value to a multiple of a granularity\<close>

text \<open>
  Claim C2, within the 28 digits of the decimal context. For \<open>v \<ge> 0\<close> and
  \<open>g > 0\<close> such that the integer quotient times the coefficient of \<open>g\<close> has at
  most 28 digits, \<^verbatim>\<open>(v // g) * g\<close> returns the largest multiple of \<open>g\<close> that does
  not exceed \<open>v\<close>: it is \<open>floor (v / g) * g\<close>, at most \<open>v\<close>, more than
  \<open>v - g\<close>, and 0 when \<open>v < g\<close>.
\<close>

theorem quantize_largest_multiple:
  assumes "0 \<le> dec_val v" and "0 < dec_val g" and "quantize_fits (dec_val v) g"
  shows "\<exists>r. quantize v g = Inr r
           \<and> dec_val r = of_int \<lfloor>dec_val v / dec_val g\<rfloor> * dec_val g
           \<and> dec_val r \<le> dec_val v
           \<and> dec_val v < dec_val r + dec_val g
           \<and> (dec_val v < dec_val g \<longrightarrow> dec_val r = 0)"
proof -
  from quantize_value[OF assms(2,3)] obtain r where
    r: "quantize v g = Inr r" "dec_val r = towards_zero (dec_val v) (dec_val g)" by blast
  note tz = towards_zero_nonneg[OF assms(1,2)]
  show ?thesis using r tz by auto
qed


text \<open>The theorem of C2 at \<open>v = 20.0005\<close>, \<open>g = 0.001\<close>.\<close>

theorem quantize_largest_multiple_witness:
  "0 \<le> dec_val (Decimal False 200005 (- 4)) \<and> 0 < dec_val (Decimal False 1 (- 3))
   \<and> quantize_fits (dec_val (Decimal False 200005 (- 4))) (Decimal False 1 (- 3))
   \<and> (\<exists>r. quantize (Decimal False 200005 (- 4)) (Decimal False 1 (- 3)) = Inr r
          \<and> dec_val r = 20
          \<and> dec_val r \<le> dec_val (Decimal False 200005 (- 4))
          \<and> dec_val (Decimal False 200005 (- 4)) < dec_val r + dec_val (Decimal False 1 (- 3)))"
proof -
  have h: "0 \<le> dec_val (Decimal False 200005 (- 4))" "0 < dec_val (Decimal False 1 (- 3))"
    "quantize_fits (dec_val (Decimal False 200005 (- 4))) (Decimal False 1 (- 3))"
    by (simp_all add: val_eval prec_def)
  have f: "rat_of_int \<lfloor>dec_val (Decimal False 200005 (- 4)) / dec_val (Decimal False 1 (- 3))\<rfloor>
             * dec_val (Decimal False 1 (- 3)) = 20"
    by (simp add: val_eval)
  from quantize_largest_multiple[OF h] f h show ?thesis by auto
qed

text \<open>
  Claim C2 as stated fails beyond 28 digits: for \<open>v = 1E+28\<close> and \<open>g = 1\<close> the
  floor division raises \<^verbatim>\<open>InvalidOperation\<close>, and for \<open>v = 3\<close> and
  \<open>g = 0.3333333333333333333333333333\<close> the product \<open>9 * g\<close> is rounded to 3,
  which is not a multiple of \<open>g\<close>.
\<close>

theorem quantize_precision_counterexample:
  "0 \<le> dec_val (Decimal False 1 28) \<and> 0 < dec_val (Decimal False 1 0)
   \<and> quantize (Decimal False 1 28) (Decimal False 1 0) = Inl InvalidOperation
   \<and> quantize (Decimal False 3 0) (Decimal False 3333333333333333333333333333 (- 28))
       = Inr (Decimal False 3000000000000000000000000000 (- 27))
   \<and> dec_val (Decimal False 3000000000000000000000000000 (- 27))
       \<noteq> 9 * dec_val (Decimal False 3333333333333333333333333333 (- 28))"
  by (simp add: dec_eval val_eval)

section \<open>Position sizing\<close>


lemma dec_val_of_int: "dec_val (dec_of_int n) = of_int n"
  by (simp add: dec_val_def dec_of_int_def abs_if)











section \<open>Take-profit and stop-loss prices\<close>


lemma tp_sl_buy_value:
  assumes d: "lower direction = ''buy''" and tick: "0 < dec_val tick_size"
    and ex: "prices_exact direction current_price tp_percent sl_percent tick_size"
  shows "\<exists>tp_price sl_price.
           tp_sl_prices direction current_price tp_percent sl_percent tick_size
             = Inr (tp_price, sl_price)
         \<and> dec_val tp_price
             = towards_zero (dec_val current_price * (1 + dec_val tp_percent / 100)) (dec_val tick_size)
         \<and> dec_val sl_price
             = towards_zero (dec_val current_price * (1 - dec_val sl_percent / 100)) (dec_val tick_size)"
proof -
  let ?one = "dec_of_int 1"
  from ex obtain t l where t: "dec_truediv tp_percent (dec_of_int 100) = Inr t"
      and l: "dec_truediv sl_percent (dec_of_int 100) = Inr l"
    by (auto simp: prices_exact_def split: sum.splits)
  from ex t l d have vt: "dec_val t = dec_val tp_percent / 100"
      and vl: "dec_val l = dec_val sl_percent / 100"
      and e1: "add_exact t ?one" and e2: "sub_exact ?one l"
      and e3: "mul_exact current_price (dec_add t ?one)"
      and e4: "mul_exact current_price (dec_sub ?one l)"
      and f1: "quantize_fits (dec_val current_price * (1 + dec_val tp_percent / 100)) tick_size"
      and f2: "quantize_fits (dec_val current_price * (1 - dec_val sl_percent / 100)) tick_size"
    by (simp_all add: prices_exact_def)
  let ?tp = "dec_mul current_price (dec_add t ?one)"
  let ?sl = "dec_mul current_price (dec_sub ?one l)"
  have vtp: "dec_val ?tp = dec_val current_price * (1 + dec_val tp_percent / 100)"
    using e1 e3 vt by (simp add: mul_exact_def add_exact_def dec_val_of_int)
  have vsl: "dec_val ?sl = dec_val current_price * (1 - dec_val sl_percent / 100)"
    using e2 e4 vl by (simp add: mul_exact_def sub_exact_def dec_val_of_int)
  from quantize_value[OF tick, of ?tp] f1 vtp obtain tp' where
    tp': "quantize ?tp tick_size = Inr tp'"
         "dec_val tp' = towards_zero (dec_val current_price * (1 + dec_val tp_percent / 100)) (dec_val tick_size)"
    by auto
  from quantize_value[OF tick, of ?sl] f2 vsl obtain sl' where
    sl': "quantize ?sl tick_size = Inr sl'"
         "dec_val sl' = towards_zero (dec_val current_price * (1 - dec_val sl_percent / 100)) (dec_val tick_size)"
    by auto
  have "tp_sl_prices direction current_price tp_percent sl_percent tick_size = Inr (tp', sl')"
    using d t l tp'(1) sl'(1) by (simp add: tp_sl_prices_def)
  with tp'(2) sl'(2) show ?thesis by blast
qed

lemma tp_sl_sell_value:
  assumes d: "lower direction = ''sell''" and tick: "0 < dec_val tick_size"
    and ex: "prices_exact direction current_price tp_percent sl_percent tick_size"
  shows "\<exists>tp_price sl_price.
           tp_sl_prices direction current_price tp_percent sl_percent tick_size
             = Inr (tp_price, sl_price)
         \<and> dec_val tp_price
             = towards_zero (dec_val current_price * (1 - dec_val tp_percent / 100)) (dec_val tick_size)
         \<and> dec_val sl_price
             = towards_zero (dec_val current_price * (1 + dec_val sl_percent / 100)) (dec_val tick_size)"
proof -
  let ?one = "dec_of_int 1"
  have nb: "lower direction \<noteq> ''buy''" using d by simp
  from ex obtain t l where t: "dec_truediv tp_percent (dec_of_int 100) = Inr t"
      and l: "dec_truediv sl_percent (dec_of_int 100) = Inr l"
    by (auto simp: prices_exact_def split: sum.splits)
  from ex t l nb have vt: "dec_val t = dec_val tp_percent / 100"
      and vl: "dec_val l = dec_val sl_percent / 100"
      and e1: "sub_exact ?one t" and e2: "add_exact l ?one"
      and e3: "mul_exact current_price (dec_sub ?one t)"
      and e4: "mul_exact current_price (dec_add l ?one)"
      and f1: "quantize_fits (dec_val current_price * (1 - dec_val tp_percent / 100)) tick_size"
      and f2: "quantize_fits (dec_val current_price * (1 + dec_val sl_percent / 100)) tick_size"
    by (simp_all add: prices_exact_def)
  let ?tp = "dec_mul current_price (dec_sub ?one t)"
  let ?sl = "dec_mul current_price (dec_add l ?one)"
  have vtp: "dec_val ?tp = dec_val current_price * (1 - dec_val tp_percent / 100)"
    using e1 e3 vt by (simp add: mul_exact_def sub_exact_def dec_val_of_int)
  have vsl: "dec_val ?sl = dec_val current_price * (1 + dec_val sl_percent / 100)"
    using e2 e4 vl by (simp add: mul_exact_def add_exact_def dec_val_of_int)
  from quantize_value[OF tick, of ?tp] f1 vtp obtain tp' where
    tp': "quantize ?tp tick_size = Inr tp'"
         "dec_val tp' = towards_zero (dec_val current_price * (1 - dec_val tp_percent / 100)) (dec_val tick_size)"
    by auto
  from quantize_value[OF tick, of ?sl] f2 vsl obtain sl' where
    sl': "quantize ?sl tick_size = Inr sl'"
         "dec_val sl' = towards_zero (dec_val current_price * (1 + dec_val sl_percent / 100)) (dec_val tick_size)"
    by auto
  have "tp_sl_prices direction current_price tp_percent sl_percent tick_size = Inr (tp', sl')"
    using d nb t l tp'(1) sl'(1) by (simp add: tp_sl_prices_def)
  with tp'(2) sl'(2) show ?thesis by blast
qed

lemma towards_zero_less:
  assumes "0 < g" "x < y" "0 < y"
  shows "towards_zero x g < y"
proof (cases "x < 0")
  case True
  then have "0 \<le> - x / g" using assms(1) by (intro divide_nonneg_pos) simp_all
  then have "0 \<le> \<lfloor>- x / g\<rfloor>" by (simp only: zero_le_floor)
  then have "towards_zero x g \<le> 0" using True assms(1)
    by (simp add: towards_zero_def mult_le_0_iff)
  with assms(3) show ?thesis by simp
next
  case False
  then have "towards_zero x g \<le> x" using towards_zero_nonneg(3)[of x g] assms(1) by simp
  with assms(2) show ?thesis by simp
qed

lemma towards_zero_greater:
  assumes "0 < g" "y < x" "0 \<le> y"
  shows "y - g < towards_zero x g"
  using towards_zero_nonneg(4)[of x g] assms by simp


text \<open>
  Claim C4, as the code has it. When no operation rounds or raises, a direction that
  lowers to \<open>buy\<close> gives \<open>tp = price * (1 + tp_percent / 100)\<close> and
  \<open>sl = price * (1 - sl_percent / 100)\<close>, a direction that lowers to \<open>sell\<close> gives
  \<open>tp = price * (1 - tp_percent / 100)\<close> and \<open>sl = price * (1 + sl_percent / 100)\<close>,
  and both are then brought to the multiple of the tick size next to them in the direction of
  zero, which for a value \<open>\<ge> 0\<close> is the largest multiple not above it. Buy at price 50000
  with 5 and 2 percent and tick 0.5 gives \<open>52500.0\<close> and \<open>49000.0\<close>.
\<close>

theorem tp_sl_prices_formulas:
  "(lower direction = ''buy'' \<and> 0 < dec_val tick_size
      \<and> prices_exact direction current_price tp_percent sl_percent tick_size
    \<longrightarrow> (\<exists>tp_price sl_price.
           tp_sl_prices direction current_price tp_percent sl_percent tick_size
             = Inr (tp_price, sl_price)
         \<and> dec_val tp_price
             = towards_zero (dec_val current_price * (1 + dec_val tp_percent / 100)) (dec_val tick_size)
         \<and> dec_val sl_price
             = towards_zero (dec_val current_price * (1 - dec_val sl_percent / 100)) (dec_val tick_size)))
   \<and> (lower direction = ''sell'' \<and> 0 < dec_val tick_size
      \<and> prices_exact direction current_price tp_percent sl_percent tick_size
    \<longrightarrow> (\<exists>tp_price sl_price.
           tp_sl_prices direction current_price tp_percent sl_percent tick_size
             = Inr (tp_price, sl_price)
         \<and> dec_val tp_price
             = towards_zero (dec_val current_price * (1 - dec_val tp_percent / 100)) (dec_val tick_size)
         \<and> dec_val sl_price
             = towards_zero (dec_val current_price * (1 + dec_val sl_percent / 100)) (dec_val tick_size)))
   \<and> (0 \<le> x \<and> 0 < g
    \<longrightarrow> towards_zero x g = of_int \<lfloor>x / g\<rfloor> * g \<and> towards_zero x g \<le> x
        \<and> x < towards_zero x g + g)
   \<and> tp_sl_prices ''buy'' (Decimal False 50000 0) (Decimal False 5 0) (Decimal False 2 0) (Decimal False 5 (- 1))
       = Inr (Decimal False 525000 (- 1), Decimal False 490000 (- 1))
   \<and> dec_str (Decimal False 525000 (- 1)) = ''52500.0''
   \<and> dec_str (Decimal False 490000 (- 1)) = ''49000.0''"
proof (intro conjI impI)
  assume "lower direction = ''buy'' \<and> 0 < dec_val tick_size
      \<and> prices_exact direction current_price tp_percent sl_percent tick_size"
  then show "\<exists>tp_price sl_price.
           tp_sl_prices direction current_price tp_percent sl_percent tick_size
             = Inr (tp_price, sl_price)
         \<and> dec_val tp_price
             = towards_zero (dec_val current_price * (1 + dec_val tp_percent / 100)) (dec_val tick_size)
         \<and> dec_val sl_price
             = towards_zero (dec_val current_price * (1 - dec_val sl_percent / 100)) (dec_val tick_size)"
    by (intro tp_sl_buy_value) simp_all
next
  assume "lower direction = ''sell'' \<and> 0 < dec_val tick_size
      \<and> prices_exact direction current_price tp_percent sl_percent tick_size"
  then show "\<exists>tp_price sl_price.
           tp_sl_prices direction current_price tp_percent sl_percent tick_size
             = Inr (tp_price, sl_price)
         \<and> dec_val tp_price
             = towards_zero (dec_val current_price * (1 - dec_val tp_percent / 100)) (dec_val tick_size)
         \<and> dec_val sl_price
             = towards_zero (dec_val current_price * (1 + dec_val sl_percent / 100)) (dec_val tick_size)"
    by (intro tp_sl_sell_value) simp_all
next
  assume "0 \<le> x \<and> 0 < g"
  then show "towards_zero x g = of_int \<lfloor>x / g\<rfloor> * g" by (simp add: towards_zero_nonneg(1))
next
  assume "0 \<le> x \<and> 0 < g"
  then show "towards_zero x g \<le> x" by (simp add: towards_zero_nonneg(3))
next
  assume "0 \<le> x \<and> 0 < g"
  then show "x < towards_zero x g + g" by (simp add: towards_zero_nonneg(4))
next
  show "tp_sl_prices ''buy'' (Decimal False 50000 0) (Decimal False 5 0) (Decimal False 2 0) (Decimal False 5 (- 1))
       = Inr (Decimal False 525000 (- 1), Decimal False 490000 (- 1))"
    by (simp add: tp_sl_prices_def dec_eval lower_def lower_char_def)
next
  show "dec_str (Decimal False 525000 (- 1)) = ''52500.0''"
    by (simp add: dec_str_def digits_of.simps Let_def)
next
  show "dec_str (Decimal False 490000 (- 1)) = ''49000.0''"
    by (simp add: dec_str_def digits_of.simps Let_def)
qed

text \<open>The theorem of C4 at Buy and at Sell, price 50000, 5 and 2 percent, tick 0.5.\<close>

theorem tp_sl_prices_formulas_witness:
  "lower ''Buy'' = ''buy'' \<and> lower ''SELL'' = ''sell'' \<and> 0 < dec_val (Decimal False 5 (- 1))
   \<and> prices_exact ''Buy'' (Decimal False 50000 0) (Decimal False 5 0) (Decimal False 2 0) (Decimal False 5 (- 1))
   \<and> prices_exact ''SELL'' (Decimal False 50000 0) (Decimal False 5 0) (Decimal False 2 0) (Decimal False 5 (- 1))
   \<and> (\<exists>tp_price sl_price. tp_sl_prices ''Buy'' (Decimal False 50000 0) (Decimal False 5 0) (Decimal False 2 0) (Decimal False 5 (- 1)) = Inr (tp_price, sl_price)
         \<and> dec_val tp_price = 52500 \<and> dec_val sl_price = 49000)
   \<and> (\<exists>tp_price sl_price. tp_sl_prices ''SELL'' (Decimal False 50000 0) (Decimal False 5 0) (Decimal False 2 0) (Decimal False 5 (- 1)) = Inr (tp_price, sl_price)
         \<and> dec_val tp_price = 47500 \<and> dec_val sl_price = 51000)"
proof -
  have h: "lower ''Buy'' = ''buy''" "lower ''SELL'' = ''sell''" "0 < dec_val (Decimal False 5 (- 1))"
    by (simp_all add: lower_def lower_char_def val_eval)
  have e: "prices_exact ''Buy'' (Decimal False 50000 0) (Decimal False 5 0) (Decimal False 2 0) (Decimal False 5 (- 1))" "prices_exact ''SELL'' (Decimal False 50000 0) (Decimal False 5 0) (Decimal False 2 0) (Decimal False 5 (- 1))"
    by (simp_all add: prices_exact_def lower_def lower_char_def dec_eval val_eval)
  have v: "towards_zero (dec_val (Decimal False 50000 0) * (1 + dec_val (Decimal False 5 0) / 100))
             (dec_val (Decimal False 5 (- 1))) = 52500"
          "towards_zero (dec_val (Decimal False 50000 0) * (1 - dec_val (Decimal False 2 0) / 100))
             (dec_val (Decimal False 5 (- 1))) = 49000"
          "towards_zero (dec_val (Decimal False 50000 0) * (1 - dec_val (Decimal False 5 0) / 100))
             (dec_val (Decimal False 5 (- 1))) = 47500"
          "towards_zero (dec_val (Decimal False 50000 0) * (1 + dec_val (Decimal False 2 0) / 100))
             (dec_val (Decimal False 5 (- 1))) = 51000"
    by (simp_all add: val_eval)
  note t1 = tp_sl_prices_formulas[of "''Buy''" "Decimal False 5 (- 1)" "Decimal False 50000 0"
      "Decimal False 5 0" "Decimal False 2 0" 0 1]
  note t2 = tp_sl_prices_formulas[of "''SELL''" "Decimal False 5 (- 1)" "Decimal False 50000 0"
      "Decimal False 5 0" "Decimal False 2 0" 0 1]
  from t1 h e have b: "\<exists>tp_price sl_price. tp_sl_prices ''Buy'' (Decimal False 50000 0) (Decimal False 5 0) (Decimal False 2 0) (Decimal False 5 (- 1)) = Inr (tp_price, sl_price)
         \<and> dec_val tp_price = 52500 \<and> dec_val sl_price = 49000"
    unfolding v by blast
  from t2 h e have s: "\<exists>tp_price sl_price. tp_sl_prices ''SELL'' (Decimal False 50000 0) (Decimal False 5 0) (Decimal False 2 0) (Decimal False 5 (- 1)) = Inr (tp_price, sl_price)
         \<and> dec_val tp_price = 47500 \<and> dec_val sl_price = 51000"
    unfolding v by blast
  show ?thesis using h e b s by blast
qed

text \<open>
  Claim C4 as stated fails for a price below zero: Sell at price 1 with a take-profit of 150
  percent and tick 1 has the take-profit \<open>-0.5\<close> before the tick is applied and
  \<open>-0\<close> after it, which is above \<open>-0.5\<close>, not quantized down.
\<close>

theorem tp_sl_prices_towards_zero_counterexample:
  "tp_sl_prices ''sell'' (Decimal False 1 0) (Decimal False 150 0) (Decimal False 1 0) (Decimal False 1 0)
     = Inr (Decimal True 0 0, Decimal False 1 0)
   \<and> dec_val (Decimal False 1 0) * (1 - dec_val (Decimal False 150 0) / 100) < dec_val (Decimal True 0 0)
   \<and> dec_str (Decimal True 0 0) = ''-0''"
  by (simp add: tp_sl_prices_def dec_eval val_eval lower_def lower_char_def dec_str_def digits_of.simps)

text \<open>
  Claim C6, as the code has it. When no operation rounds or raises, for a price, percentages
  and a tick size above zero: a Buy has its stop price strictly below the current price and
  its take-profit price above the current price less one tick; a Sell has its take-profit
  price strictly below the current price and its stop price above the current price less one
  tick.
\<close>

theorem tp_sl_prices_order:
  "(lower direction = ''buy'' \<and> 0 < dec_val current_price \<and> 0 < dec_val tp_percent
      \<and> 0 < dec_val sl_percent \<and> 0 < dec_val tick_size
      \<and> prices_exact direction current_price tp_percent sl_percent tick_size
    \<longrightarrow> (\<exists>tp_price sl_price.
           tp_sl_prices direction current_price tp_percent sl_percent tick_size
             = Inr (tp_price, sl_price)
         \<and> dec_val sl_price < dec_val current_price
         \<and> dec_val current_price - dec_val tick_size < dec_val tp_price))
   \<and> (lower direction = ''sell'' \<and> 0 < dec_val current_price \<and> 0 < dec_val tp_percent
      \<and> 0 < dec_val sl_percent \<and> 0 < dec_val tick_size
      \<and> prices_exact direction current_price tp_percent sl_percent tick_size
    \<longrightarrow> (\<exists>tp_price sl_price.
           tp_sl_prices direction current_price tp_percent sl_percent tick_size
             = Inr (tp_price, sl_price)
         \<and> dec_val tp_price < dec_val current_price
         \<and> dec_val current_price - dec_val tick_size < dec_val sl_price))"
proof (intro conjI impI)
  assume h: "lower direction = ''buy'' \<and> 0 < dec_val current_price \<and> 0 < dec_val tp_percent
      \<and> 0 < dec_val sl_percent \<and> 0 < dec_val tick_size
      \<and> prices_exact direction current_price tp_percent sl_percent tick_size"
  then obtain tp_price sl_price where
    r: "tp_sl_prices direction current_price tp_percent sl_percent tick_size = Inr (tp_price, sl_price)"
       "dec_val tp_price
          = towards_zero (dec_val current_price * (1 + dec_val tp_percent / 100)) (dec_val tick_size)"
       "dec_val sl_price
          = towards_zero (dec_val current_price * (1 - dec_val sl_percent / 100)) (dec_val tick_size)"
    using tp_sl_buy_value[of direction tick_size current_price tp_percent sl_percent] by blast
  have up: "dec_val current_price < dec_val current_price * (1 + dec_val tp_percent / 100)"
    using h by (simp add: algebra_simps)
  have dn: "dec_val current_price * (1 - dec_val sl_percent / 100) < dec_val current_price"
    using h by (simp add: algebra_simps)
  have "dec_val sl_price < dec_val current_price"
    unfolding r(3) using h dn by (intro towards_zero_less) simp_all
  moreover have "dec_val current_price - dec_val tick_size < dec_val tp_price"
    unfolding r(2) using h up by (intro towards_zero_greater) simp_all
  ultimately show "\<exists>tp_price sl_price.
           tp_sl_prices direction current_price tp_percent sl_percent tick_size
             = Inr (tp_price, sl_price)
         \<and> dec_val sl_price < dec_val current_price
         \<and> dec_val current_price - dec_val tick_size < dec_val tp_price"
    using r(1) by blast
next
  assume h: "lower direction = ''sell'' \<and> 0 < dec_val current_price \<and> 0 < dec_val tp_percent
      \<and> 0 < dec_val sl_percent \<and> 0 < dec_val tick_size
      \<and> prices_exact direction current_price tp_percent sl_percent tick_size"
  then obtain tp_price sl_price where
    r: "tp_sl_prices direction current_price tp_percent sl_percent tick_size = Inr (tp_price, sl_price)"
       "dec_val tp_price
          = towards_zero (dec_val current_price * (1 - dec_val tp_percent / 100)) (dec_val tick_size)"
       "dec_val sl_price
          = towards_zero (dec_val current_price * (1 + dec_val sl_percent / 100)) (dec_val tick_size)"
    using tp_sl_sell_value[of direction tick_size current_price tp_percent sl_percent] by blast
  have up: "dec_val current_price < dec_val current_price * (1 + dec_val sl_percent / 100)"
    using h by (simp add: algebra_simps)
  have dn: "dec_val current_price * (1 - dec_val tp_percent / 100) < dec_val current_price"
    using h by (simp add: algebra_simps)
  have "dec_val tp_price < dec_val current_price"
    unfolding r(2) using h dn by (intro towards_zero_less) simp_all
  moreover have "dec_val current_price - dec_val tick_size < dec_val sl_price"
    unfolding r(3) using h up by (intro towards_zero_greater) simp_all
  ultimately show "\<exists>tp_price sl_price.
           tp_sl_prices direction current_price tp_percent sl_percent tick_size
             = Inr (tp_price, sl_price)
         \<and> dec_val tp_price < dec_val current_price
         \<and> dec_val current_price - dec_val tick_size < dec_val sl_price"
    using r(1) by blast
qed

text \<open>The theorem of C6 at Buy and at Sell, price 100, half a percent each way, tick 1.\<close>

theorem tp_sl_prices_order_witness:
  "lower ''buy'' = ''buy'' \<and> lower ''sell'' = ''sell''
   \<and> 0 < dec_val (Decimal False 100 0) \<and> 0 < dec_val (Decimal False 5 (- 1))
   \<and> 0 < dec_val (Decimal False 1 0)
   \<and> prices_exact ''buy'' (Decimal False 100 0) (Decimal False 5 (- 1)) (Decimal False 5 (- 1)) (Decimal False 1 0)
   \<and> prices_exact ''sell'' (Decimal False 100 0) (Decimal False 5 (- 1)) (Decimal False 5 (- 1)) (Decimal False 1 0)
   \<and> (\<exists>tp_price sl_price. tp_sl_prices ''buy'' (Decimal False 100 0) (Decimal False 5 (- 1)) (Decimal False 5 (- 1)) (Decimal False 1 0) = Inr (tp_price, sl_price)
         \<and> dec_val sl_price < dec_val (Decimal False 100 0)
         \<and> dec_val (Decimal False 100 0) - dec_val (Decimal False 1 0) < dec_val tp_price)
   \<and> (\<exists>tp_price sl_price. tp_sl_prices ''sell'' (Decimal False 100 0) (Decimal False 5 (- 1)) (Decimal False 5 (- 1)) (Decimal False 1 0) = Inr (tp_price, sl_price)
         \<and> dec_val tp_price < dec_val (Decimal False 100 0)
         \<and> dec_val (Decimal False 100 0) - dec_val (Decimal False 1 0) < dec_val sl_price)"
proof -
  have h: "lower ''buy'' = ''buy''" "lower ''sell'' = ''sell''"
      "0 < dec_val (Decimal False 100 0)" "0 < dec_val (Decimal False 5 (- 1))"
      "0 < dec_val (Decimal False 1 0)"
    by (simp_all add: lower_def lower_char_def val_eval)
  have e: "prices_exact ''buy'' (Decimal False 100 0) (Decimal False 5 (- 1)) (Decimal False 5 (- 1)) (Decimal False 1 0)" "prices_exact ''sell'' (Decimal False 100 0) (Decimal False 5 (- 1)) (Decimal False 5 (- 1)) (Decimal False 1 0)"
    by (simp_all add: prices_exact_def lower_def lower_char_def dec_eval val_eval)
  note t1 = tp_sl_prices_order[of "''buy''" "Decimal False 100 0" "Decimal False 5 (- 1)"
      "Decimal False 5 (- 1)" "Decimal False 1 0"]
  note t2 = tp_sl_prices_order[of "''sell''" "Decimal False 100 0" "Decimal False 5 (- 1)"
      "Decimal False 5 (- 1)" "Decimal False 1 0"]
  from t1 h e have b: "\<exists>tp_price sl_price. tp_sl_prices ''buy'' (Decimal False 100 0) (Decimal False 5 (- 1)) (Decimal False 5 (- 1)) (Decimal False 1 0) = Inr (tp_price, sl_price)
         \<and> dec_val sl_price < dec_val (Decimal False 100 0)
         \<and> dec_val (Decimal False 100 0) - dec_val (Decimal False 1 0) < dec_val tp_price"
    by blast
  from t2 h e have s: "\<exists>tp_price sl_price. tp_sl_prices ''sell'' (Decimal False 100 0) (Decimal False 5 (- 1)) (Decimal False 5 (- 1)) (Decimal False 1 0) = Inr (tp_price, sl_price)
         \<and> dec_val tp_price < dec_val (Decimal False 100 0)
         \<and> dec_val (Decimal False 100 0) - dec_val (Decimal False 1 0) < dec_val sl_price"
    by blast
  show ?thesis using h e b s by blast
qed

text \<open>
  Claim C6 as stated fails when the offset is less than a tick: at price 100, half a percent
  each way and tick 1, the take-profit of a Buy is 100, not above the current price, and the
  stop of a Sell is 100, not above the current price.
\<close>

theorem tp_sl_prices_order_counterexample:
  "0 < dec_val (Decimal False 5 (- 1))
   \<and> tp_sl_prices ''buy'' (Decimal False 100 0) (Decimal False 5 (- 1)) (Decimal False 5 (- 1)) (Decimal False 1 0) = Inr (Decimal False 100 0, Decimal False 99 0)
   \<and> tp_sl_prices ''sell'' (Decimal False 100 0) (Decimal False 5 (- 1)) (Decimal False 5 (- 1)) (Decimal False 1 0) = Inr (Decimal False 99 0, Decimal False 100 0)
   \<and> \<not> dec_val (Decimal False 100 0) < dec_val (Decimal False 100 0)"
  by (simp add: tp_sl_prices_def dec_eval val_eval lower_def lower_char_def)

section \<open>The trace of a run\<close>


lemma orders_of_append: "orders_of (xs @ ys) = orders_of xs @ orders_of ys"
  by (simp add: orders_of_def calls_of_append)

lemma orders_of_replicate_calls:
  "calls_of evs = replicate n ep \<Longrightarrow> orders_of evs = concat (replicate n (order_of_endpoint ep))"
  by (simp add: orders_of_def)

lemma retry_loop_remote_Cons:
  "retry_loop (remote ep f) (a # as) s =
     (case f (ncalls s) of
        Returns None \<Rightarrow>
          retry_loop (remote ep f) as
            (on_failure a (ValueError ''Empty response received'')
               ((emit [Called ep] s)\<lparr>ncalls := Suc (ncalls s)\<rparr>))
      | Returns (Some response) \<Rightarrow> (Inr response, (emit [Called ep] s)\<lparr>ncalls := Suc (ncalls s)\<rparr>)
      | Raises e \<Rightarrow>
          if caught_by_retry e
          then retry_loop (remote ep f) as
                 (on_failure a e ((emit [Called ep] s)\<lparr>ncalls := Suc (ncalls s)\<rparr>))
          else (Inl e, (emit [Called ep] s)\<lparr>ncalls := Suc (ncalls s)\<rparr>))"
  by (simp add: remote_def split: outcome.splits option.splits)

lemma retry_loop_shape:
  "retry_loop (remote ep f) as s = (res, s') \<Longrightarrow>
   \<exists>evs n. s' = s\<lparr>trace := trace s @ evs, ncalls := ncalls s + n\<rparr>
         \<and> calls_of evs = replicate n ep \<and> n \<le> length as \<and> (isl res \<or> 0 < n)"
proof (induction as arbitrary: s)
  case Nil
  then have "s' = s\<lparr>trace := trace s @ [], ncalls := ncalls s + 0\<rparr>" "isl res" by auto
  then show ?case by (metis calls_of.simps(1) replicate_0 le0 list.size(3))
next
  case (Cons a as)
  let ?s1 = "(emit [Called ep] s)\<lparr>ncalls := Suc (ncalls s)\<rparr>"
  have step: "\<exists>evs n. s' = s\<lparr>trace := trace s @ evs, ncalls := ncalls s + n\<rparr>
         \<and> calls_of evs = replicate n ep \<and> n \<le> length (a # as) \<and> (isl res \<or> 0 < n)"
    if rec: "retry_loop (remote ep f) as (on_failure a e ?s1) = (res, s')" for e
  proof -
    from Cons.IH[OF rec] obtain evs n where
      e: "s' = (on_failure a e ?s1)\<lparr>trace := trace (on_failure a e ?s1) @ evs,
                                  ncalls := ncalls (on_failure a e ?s1) + n\<rparr>"
         "calls_of evs = replicate n ep" "n \<le> length as" by blast
    let ?evs = "[Called ep, Warning (a + 1) max_retries e, Sleep (backoff_factor * 2 ^ a)] @ evs"
    have "s' = s\<lparr>trace := trace s @ ?evs, ncalls := ncalls s + Suc n\<rparr>"
      using e(1) by (simp add: on_failure_def emit_def)
    moreover have "calls_of ?evs = replicate (Suc n) ep" using e(2) by simp
    moreover have "Suc n \<le> length (a # as)" using e(3) by simp
    ultimately show ?thesis by blast
  qed
  have fin: "\<exists>evs n. s' = s\<lparr>trace := trace s @ evs, ncalls := ncalls s + n\<rparr>
         \<and> calls_of evs = replicate n ep \<and> n \<le> length (a # as) \<and> (isl res \<or> 0 < n)"
    if "s' = ?s1"
  proof -
    have "s' = s\<lparr>trace := trace s @ [Called ep], ncalls := ncalls s + 1\<rparr>"
      using that by (simp add: emit_def)
    moreover have "calls_of [Called ep] = replicate 1 ep" by simp
    ultimately show ?thesis by (intro exI[of _ "[Called ep]"] exI[of _ 1]) simp
  qed
  note p = Cons.prems[unfolded retry_loop_remote_Cons]
  show ?case
  proof (cases "f (ncalls s)")
    case (Returns x)
    show ?thesis
    proof (cases x)
      case None
      with Returns p show ?thesis by (intro step[of "ValueError ''Empty response received''"]) simp
    next
      case (Some y)
      with Returns p show ?thesis by (intro fin) simp
    qed
  next
    case (Raises e)
    show ?thesis
    proof (cases "caught_by_retry e")
      case True
      with Raises p show ?thesis by (intro step[of e]) simp
    next
      case False
      with Raises p have "s' = ?s1" "isl res" by auto
      then have "s' = s\<lparr>trace := trace s @ [Called ep], ncalls := ncalls s + 1\<rparr>" "isl res"
        by (simp_all add: emit_def)
      moreover have "calls_of [Called ep] = replicate 1 ep" by simp
      ultimately show ?thesis by (intro exI[of _ "[Called ep]"] exI[of _ 1]) simp
    qed
  qed
qed

lemma api_call_shape:
  assumes "api_call_with_retry (remote ep f) s = (res, s')"
  shows "\<exists>evs n. trace s' = trace s @ evs \<and> nclock s' = nclock s
           \<and> orders_of evs = concat (replicate n (order_of_endpoint ep)) \<and> (isl res \<or> 0 < n)"
proof -
  from retry_loop_shape[OF assms[unfolded api_call_with_retry_def]] obtain evs n where
    e: "s' = s\<lparr>trace := trace s @ evs, ncalls := ncalls s + n\<rparr>"
       "calls_of evs = replicate n ep" "isl res \<or> 0 < n" by blast
  have "trace s' = trace s @ evs" "nclock s' = nclock s" using e(1) by simp_all
  with orders_of_replicate_calls[OF e(2)] e(3) show ?thesis by blast
qed



lemma orders_of_Nil: "orders_of [] = []"
  by (simp add: orders_of_def)

lemma orders_of_Info: "orders_of [Info a b] = []"
  by (simp add: orders_of_def)

lemma submit_shape:
  assumes "submit ev label args s = (res, s')"
  shows "\<exists>evs n. trace s' = trace s @ evs \<and> nclock s' = Suc (nclock s)
           \<and> orders_of evs = replicate n (args (time ev (nclock s))) \<and> (isl res \<or> 0 < n)"
proof -
  let ?ts = "time ev (nclock s)"
  let ?s1 = "s\<lparr>nclock := Suc (nclock s)\<rparr>"
  obtain r2 s2 where a: "api_call_with_retry (remote (CreateOrderV3 (args ?ts)) (create_order_v3 ev (args ?ts))) ?s1 = (r2, s2)"
    by (cases "api_call_with_retry (remote (CreateOrderV3 (args ?ts)) (create_order_v3 ev (args ?ts))) ?s1")
  from api_call_shape[OF a] obtain evs n where
    e: "trace s2 = trace ?s1 @ evs" "nclock s2 = nclock ?s1"
       "orders_of evs = concat (replicate n (order_of_endpoint (CreateOrderV3 (args ?ts))))"
       "isl r2 \<or> 0 < n" by blast
  have o: "orders_of evs = replicate n (args ?ts)" using e(3) by (induction n) simp_all
  show ?thesis
  proof (cases r2)
    case (Inl err)
    then have "res = Inl err" "s' = s2"
      using assms a by (simp_all add: submit_def and_then_def read_clock_def)
    then show ?thesis using e o by (intro exI[of _ evs] exI[of _ n]) simp
  next
    case (Inr order)
    then have r: "res = Inr ()" "s' = emit [Info label order] s2"
      using assms a by (simp_all add: submit_def and_then_def read_clock_def log_info_def)
    have "trace s' = trace s @ (evs @ [Info label order])" using r(2) e(1) by (simp add: emit_def)
    moreover have "nclock s' = Suc (nclock s)" using r(2) e(2) by (simp add: emit_def)
    moreover have "orders_of (evs @ [Info label order]) = replicate n (args ?ts)"
      using o by (simp add: orders_of_append orders_of_Info)
    moreover have "0 < n" using e(4) Inr by simp
    ultimately show ?thesis by blast
  qed
qed

lemma plan_and_submit_shape:
  assumes run: "plan_and_submit ev symb direction leverage tp_percent sl_percent
                  account_data tick_size step_size current_price s = (res, s')"
    and ps: "calculate_position_size account_data leverage current_price step_size = Inr position_size"
    and pr: "tp_sl_prices direction current_price tp_percent sl_percent tick_size = Inr (tp_price, sl_price)"
  shows "\<exists>evs n1 n2 n3. trace s' = trace s @ evs
     \<and> orders_of evs =
          replicate n1 (initial_order_args symb direction position_size current_price (time ev (nclock s)))
        @ replicate n2 (stop_order_args symb direction position_size sl_price (time ev (nclock s + 1)))
        @ replicate n3 (tp_order_args symb direction position_size tp_price (time ev (nclock s + 2)))
     \<and> (res = Inr () \<longrightarrow> 0 < n1 \<and> 0 < n2 \<and> 0 < n3)"
proof -
  let ?i = "initial_order_args symb direction position_size current_price"
  let ?st = "stop_order_args symb direction position_size sl_price"
  let ?tp = "tp_order_args symb direction position_size tp_price"
  obtain r1 s1 where a1: "submit ev ''Initial Order'' ?i s = (r1, s1)"
    by (cases "submit ev ''Initial Order'' ?i s")
  from submit_shape[OF a1] obtain e1 n1 where
    s1: "trace s1 = trace s @ e1" "nclock s1 = Suc (nclock s)"
        "orders_of e1 = replicate n1 (?i (time ev (nclock s)))" "isl r1 \<or> 0 < n1" by blast
  have unfold1: "plan_and_submit ev symb direction leverage tp_percent sl_percent
                  account_data tick_size step_size current_price s
       = (case r1 of Inl e \<Rightarrow> (Inl e, s1)
          | Inr _ \<Rightarrow> and_then (submit ev ''Stop Loss Order'' ?st)
                       (\<lambda>_. submit ev ''Take Profit Order'' ?tp) s1)"
    using a1 ps pr by (simp add: plan_and_submit_def and_then_def pure_def split: sum.splits)
  show ?thesis
  proof (cases r1)
    case (Inl e)
    then have "s' = s1" "res = Inl e" using run unfold1 by simp_all
    then have "trace s' = trace s @ e1"
      "orders_of e1 = replicate n1 (?i (time ev (nclock s))) @ replicate 0 (?st (time ev (nclock s + 1)))
          @ replicate 0 (?tp (time ev (nclock s + 2)))" "res \<noteq> Inr ()"
      using s1 by simp_all
    then show ?thesis by blast
  next
    case (Inr u1)
    obtain r2 s2 where a2: "submit ev ''Stop Loss Order'' ?st s1 = (r2, s2)"
      by (cases "submit ev ''Stop Loss Order'' ?st s1")
    from submit_shape[OF a2] obtain e2 n2 where
      s2: "trace s2 = trace s1 @ e2" "nclock s2 = Suc (nclock s1)"
          "orders_of e2 = replicate n2 (?st (time ev (nclock s1)))" "isl r2 \<or> 0 < n2" by blast
    show ?thesis
    proof (cases r2)
      case (Inl e)
      then have "s' = s2" "res = Inl e" using run unfold1 Inr a2 by (simp_all add: and_then_def)
      then have "trace s' = trace s @ (e1 @ e2)"
        "orders_of (e1 @ e2) = replicate n1 (?i (time ev (nclock s)))
            @ replicate n2 (?st (time ev (nclock s + 1)))
            @ replicate 0 (?tp (time ev (nclock s + 2)))" "res \<noteq> Inr ()"
        using s1 s2 by (simp_all add: orders_of_append)
      then show ?thesis by blast
    next
      case r2: (Inr u2)
      have a3: "submit ev ''Take Profit Order'' ?tp s2 = (res, s')"
        using run unfold1 Inr a2 r2 by (simp add: and_then_def)
      from submit_shape[OF a3] obtain e3 n3 where
        s3: "trace s' = trace s2 @ e3"
            "orders_of e3 = replicate n3 (?tp (time ev (nclock s2)))" "isl res \<or> 0 < n3" by blast
      have "trace s' = trace s @ (e1 @ e2 @ e3)" using s1 s2 s3 by simp
      moreover have "orders_of (e1 @ e2 @ e3) = replicate n1 (?i (time ev (nclock s)))
            @ replicate n2 (?st (time ev (nclock s + 1)))
            @ replicate n3 (?tp (time ev (nclock s + 2)))"
        using s1 s2 s3 by (simp add: orders_of_append)
      moreover have "res = Inr () \<longrightarrow> 0 < n1 \<and> 0 < n2 \<and> 0 < n3"
        using s1(4) s2(4) s3(3) Inr r2 by auto
      ultimately show ?thesis by blast
    qed
  qed
qed
















lemmas run_eval = place_optimal_limit_order_def remote_def fetch_account_data_def
  fetch_tick_and_step_size_def fetch_current_price_def and_then_def pure_def
  api_call_with_retry_def max_retries_def upt_0_5 emit_def world0_def on_failure_def
  backoff_factor_def calculate_position_size_def tp_sl_prices_def lower_def upper_def
  lower_char_def upper_char_def submit_def read_clock_def log_info_def plan_and_submit_def
  initial_order_args_def stop_order_args_def tp_order_args_def dec_str_def digits_of.simps
  orders_of_def

lemma example_sizes:
  "calculate_position_size (AvailableBalance (Decimal False 1000 0)) (Decimal False 10 0)
     (Decimal False 50000 0) (Decimal False 1 (- 3)) = Inr (Decimal False 20000 (- 3))"
  "tp_sl_prices ''Buy'' (Decimal False 50000 0) (Decimal False 5 0) (Decimal False 2 0)
     (Decimal False 5 (- 1)) = Inr (Decimal False 525000 (- 1), Decimal False 490000 (- 1))"
  by (simp_all add: calculate_position_size_def tp_sl_prices_def lower_def lower_char_def dec_eval)

lemma example_plan:
  "plan_and_submit env_ok ''BTC-USDT'' ''Buy'' (Decimal False 10 0) (Decimal False 5 0)
     (Decimal False 2 0) (AvailableBalance (Decimal False 1000 0)) (Decimal False 5 (- 1))
     (Decimal False 1 (- 3)) (Decimal False 50000 0) world0
   = (Inr (),
      \<lparr>trace =
         [Called (CreateOrderV3
            \<lparr>symbol = ''BTC-USDT'', side = ''BUY'', type = ''MARKET'',
             size = ''20.000'', price = ''50000'', timeInForce = ''GOOD_TIL_CANCEL'',
             timestampSeconds = 1700000000, isPositionTpsl = None, reduceOnly = None,
             triggerPriceType = None, triggerPrice = None\<rparr>),
          Info ''Initial Order'' ''ack'',
          Called (CreateOrderV3
            \<lparr>symbol = ''BTC-USDT'', side = ''SELL'', type = ''STOP_MARKET'',
             size = ''20.000'', price = ''49000.0'', timeInForce = ''GOOD_TIL_CANCEL'',
             timestampSeconds = 1700000000, isPositionTpsl = Some True, reduceOnly = Some True,
             triggerPriceType = Some ''INDEX'', triggerPrice = Some ''49000.0''\<rparr>),
          Info ''Stop Loss Order'' ''ack'',
          Called (CreateOrderV3
            \<lparr>symbol = ''BTC-USDT'', side = ''SELL'', type = ''TAKE_PROFIT_MARKET'',
             size = ''20.000'', price = ''52500.0'', timeInForce = ''GOOD_TIL_CANCEL'',
             timestampSeconds = 1700000000, isPositionTpsl = Some True, reduceOnly = Some True,
             triggerPriceType = Some ''INDEX'', triggerPrice = Some ''52500.0''\<rparr>),
          Info ''Take Profit Order'' ''ack''],
       ncalls = 3, nclock = 3\<rparr>)"
  unfolding plan_and_submit_def example_sizes
  by (simp add: and_then_def pure_def submit_def read_clock_def log_info_def remote_def
        api_call_with_retry_def max_retries_def upt_0_5 emit_def world0_def env_ok_def
        initial_order_args_def stop_order_args_def tp_order_args_def dec_str_def digits_of.simps
        lower_def upper_def lower_char_def upper_char_def)

lemma example_short:
  "place_optimal_limit_order env_ok ''BTC-USDT'' ''short'' (Decimal False 10 0) (Decimal False 5 0)
     (Decimal False 2 0) world0
   = (Inl (ValueError ''Direction must be either buy or sell''),
      \<lparr>trace = [Called GetAccountV3, Called GetAccountBalanceV3, Called ConfigsV3,
                 Called (TickerV3 ''BTC-USDT'')], ncalls = 4, nclock = 0\<rparr>)"
  by (simp add: run_eval env_ok_def dec_eval)



lemma read_clock_ignores_get_account_v3:
  "read_clock (ev\<lparr>get_account_v3 := g\<rparr>) = read_clock ev"
  by (rule ext) (simp add: read_clock_def)

lemma fetchers_ignore_get_account_v3:
  "fetch_account_data (ev\<lparr>get_account_v3 := g\<rparr>) = fetch_account_data ev"
  "fetch_tick_and_step_size (ev\<lparr>get_account_v3 := g\<rparr>) = fetch_tick_and_step_size ev"
  "fetch_current_price (ev\<lparr>get_account_v3 := g\<rparr>) = fetch_current_price ev"
  "submit (ev\<lparr>get_account_v3 := g\<rparr>) = submit ev"
  by (simp_all add: fetch_account_data_def fetch_tick_and_step_size_def fetch_current_price_def
        submit_def read_clock_ignores_get_account_v3 fun_eq_iff)

lemma plan_ignores_get_account_v3:
  "plan_and_submit (ev\<lparr>get_account_v3 := g\<rparr>) = plan_and_submit ev"
  by (simp add: plan_and_submit_def fetchers_ignore_get_account_v3 fun_eq_iff)


section \<open>Properties of a run\<close>




text \<open>
  Claim C9. The value that the first call, \<^verbatim>\<open>private_client.get_account_v3()\<close>, returns
  is not used: two runs from the same state, in environments that differ in nothing but the
  value this call returns, end with the same result and in the same world, so with the same
  trace of calls, order requests, warnings and waits.
\<close>

theorem account_v3_result_unused:
  "get_account_v3 ev (ncalls s) = Returns r \<and> g (ncalls s) = Returns r' \<longrightarrow>
     place_optimal_limit_order (ev\<lparr>get_account_v3 := g\<rparr>) symb direction leverage tp_percent sl_percent s
       = place_optimal_limit_order ev symb direction leverage tp_percent sl_percent s"
  by (simp add: place_optimal_limit_order_def remote_def fetchers_ignore_get_account_v3
        plan_ignores_get_account_v3)

text \<open>The theorem of C9 on the venue that answers every call, against the same venue with
  an empty answer to the first call.\<close>

theorem account_v3_result_unused_witness:
  "get_account_v3 env_ok (ncalls world0) = Returns (Some ''account'')
   \<and> (\<lambda>n. Returns None) (ncalls world0) = (Returns None :: string outcome)
   \<and> place_optimal_limit_order (env_ok\<lparr>get_account_v3 := \<lambda>n. Returns None\<rparr>) ''BTC-USDT'' ''Buy''
         (Decimal False 10 0) (Decimal False 5 0) (Decimal False 2 0) world0
       = place_optimal_limit_order env_ok ''BTC-USDT'' ''Buy''
         (Decimal False 10 0) (Decimal False 5 0) (Decimal False 2 0) world0"
proof -
  have h: "get_account_v3 env_ok (ncalls world0) = Returns (Some ''account'')"
    by (simp add: env_ok_def)
  from account_v3_result_unused[of env_ok world0 "Some ''account''" "\<lambda>n. Returns None" None
      "''BTC-USDT''" "''Buy''" "Decimal False 10 0" "Decimal False 5 0" "Decimal False 2 0"] h
  show ?thesis by simp
qed

text \<open>
  Claim C10. In a run that has computed the position size and the two prices, each request
  passed to \<^verbatim>\<open>create_order_v3\<close> has the string of the position size as its size,
  whatever that size is; a stop request has the string of the stop price both as price and as
  trigger price, a take-profit request the string of the take-profit price; and a run that
  ends well has submitted an entry, then a stop, then a take-profit request, each one or
  more times.
\<close>

theorem submitted_orders_consistent:
  "plan_and_submit ev symb direction leverage tp_percent sl_percent
       account_data tick_size step_size current_price s = (res, s')
   \<and> calculate_position_size account_data leverage current_price step_size = Inr position_size
   \<and> tp_sl_prices direction current_price tp_percent sl_percent tick_size = Inr (tp_price, sl_price)
   \<longrightarrow> (\<exists>evs n1 n2 n3. trace s' = trace s @ evs
        \<and> (\<forall>r \<in> set (orders_of evs).
              size r = dec_str position_size
            \<and> (type r = ''MARKET'' \<longrightarrow> price r = dec_str current_price \<and> triggerPrice r = None)
            \<and> (type r = ''STOP_MARKET'' \<longrightarrow>
                  price r = dec_str sl_price \<and> triggerPrice r = Some (dec_str sl_price))
            \<and> (type r = ''TAKE_PROFIT_MARKET'' \<longrightarrow>
                  price r = dec_str tp_price \<and> triggerPrice r = Some (dec_str tp_price)))
        \<and> map type (orders_of evs)
            = replicate n1 ''MARKET'' @ replicate n2 ''STOP_MARKET''
              @ replicate n3 ''TAKE_PROFIT_MARKET''
        \<and> (res = Inr () \<longrightarrow> 0 < n1 \<and> 0 < n2 \<and> 0 < n3))"
proof
  assume h: "plan_and_submit ev symb direction leverage tp_percent sl_percent
       account_data tick_size step_size current_price s = (res, s')
   \<and> calculate_position_size account_data leverage current_price step_size = Inr position_size
   \<and> tp_sl_prices direction current_price tp_percent sl_percent tick_size = Inr (tp_price, sl_price)"
  let ?i = "initial_order_args symb direction position_size current_price (time ev (nclock s))"
  let ?st = "stop_order_args symb direction position_size sl_price (time ev (nclock s + 1))"
  let ?tp = "tp_order_args symb direction position_size tp_price (time ev (nclock s + 2))"
  from h plan_and_submit_shape[of ev symb direction leverage tp_percent sl_percent account_data
      tick_size step_size current_price s res s' position_size tp_price sl_price]
  obtain evs n1 n2 n3 where
    e: "trace s' = trace s @ evs"
       "orders_of evs = replicate n1 ?i @ replicate n2 ?st @ replicate n3 ?tp"
       "res = Inr () \<longrightarrow> 0 < n1 \<and> 0 < n2 \<and> 0 < n3"
    by blast
  have all: "\<forall>r \<in> set (orders_of evs).
              size r = dec_str position_size
            \<and> (type r = ''MARKET'' \<longrightarrow> price r = dec_str current_price \<and> triggerPrice r = None)
            \<and> (type r = ''STOP_MARKET'' \<longrightarrow>
                  price r = dec_str sl_price \<and> triggerPrice r = Some (dec_str sl_price))
            \<and> (type r = ''TAKE_PROFIT_MARKET'' \<longrightarrow>
                  price r = dec_str tp_price \<and> triggerPrice r = Some (dec_str tp_price))"
    unfolding e(2)
    by (auto simp: initial_order_args_def stop_order_args_def tp_order_args_def)
  have types: "map type (orders_of evs)
            = replicate n1 ''MARKET'' @ replicate n2 ''STOP_MARKET''
              @ replicate n3 ''TAKE_PROFIT_MARKET''"
    unfolding e(2)
    by (simp add: initial_order_args_def stop_order_args_def tp_order_args_def)
  from e(1) all types e(3)
  show "\<exists>evs n1 n2 n3. trace s' = trace s @ evs
        \<and> (\<forall>r \<in> set (orders_of evs).
              size r = dec_str position_size
            \<and> (type r = ''MARKET'' \<longrightarrow> price r = dec_str current_price \<and> triggerPrice r = None)
            \<and> (type r = ''STOP_MARKET'' \<longrightarrow>
                  price r = dec_str sl_price \<and> triggerPrice r = Some (dec_str sl_price))
            \<and> (type r = ''TAKE_PROFIT_MARKET'' \<longrightarrow>
                  price r = dec_str tp_price \<and> triggerPrice r = Some (dec_str tp_price)))
        \<and> map type (orders_of evs)
            = replicate n1 ''MARKET'' @ replicate n2 ''STOP_MARKET''
              @ replicate n3 ''TAKE_PROFIT_MARKET''
        \<and> (res = Inr () \<longrightarrow> 0 < n1 \<and> 0 < n2 \<and> 0 < n3)"
    by blast
qed





text \<open>The theorem of C10 on the venue that answers every call: balance 1000, leverage 10,
  price 50000, step 0.001, tick 0.5.\<close>

theorem submitted_orders_consistent_witness:
  "calculate_position_size (AvailableBalance (Decimal False 1000 0)) (Decimal False 10 0)
     (Decimal False 50000 0) (Decimal False 1 (- 3)) = Inr (Decimal False 20000 (- 3))
   \<and> tp_sl_prices ''Buy'' (Decimal False 50000 0) (Decimal False 5 0) (Decimal False 2 0)
     (Decimal False 5 (- 1)) = Inr (Decimal False 525000 (- 1), Decimal False 490000 (- 1))
   \<and> fst (plan_and_submit env_ok ''BTC-USDT'' ''Buy'' (Decimal False 10 0) (Decimal False 5 0)
        (Decimal False 2 0) (AvailableBalance (Decimal False 1000 0)) (Decimal False 5 (- 1))
        (Decimal False 1 (- 3)) (Decimal False 50000 0) world0) = Inr ()
   \<and> map size (orders_of (trace (snd (plan_and_submit env_ok ''BTC-USDT'' ''Buy'' (Decimal False 10 0)
        (Decimal False 5 0) (Decimal False 2 0) (AvailableBalance (Decimal False 1000 0))
        (Decimal False 5 (- 1)) (Decimal False 1 (- 3)) (Decimal False 50000 0) world0))))
       = [''20.000'', ''20.000'', ''20.000'']
   \<and> map type (orders_of (trace (snd (plan_and_submit env_ok ''BTC-USDT'' ''Buy'' (Decimal False 10 0)
        (Decimal False 5 0) (Decimal False 2 0) (AvailableBalance (Decimal False 1000 0))
        (Decimal False 5 (- 1)) (Decimal False 1 (- 3)) (Decimal False 50000 0) world0))))
       = [''MARKET'', ''STOP_MARKET'', ''TAKE_PROFIT_MARKET'']
   \<and> map price (orders_of (trace (snd (plan_and_submit env_ok ''BTC-USDT'' ''Buy'' (Decimal False 10 0)
        (Decimal False 5 0) (Decimal False 2 0) (AvailableBalance (Decimal False 1000 0))
        (Decimal False 5 (- 1)) (Decimal False 1 (- 3)) (Decimal False 50000 0) world0))))
       = [''50000'', ''49000.0'', ''52500.0'']
   \<and> map triggerPrice (orders_of (trace (snd (plan_and_submit env_ok ''BTC-USDT'' ''Buy''
        (Decimal False 10 0) (Decimal False 5 0) (Decimal False 2 0)
        (AvailableBalance (Decimal False 1000 0)) (Decimal False 5 (- 1)) (Decimal False 1 (- 3))
        (Decimal False 50000 0) world0))))
       = [None, Some ''49000.0'', Some ''52500.0'']"
proof -
  let ?run = "plan_and_submit env_ok ''BTC-USDT'' ''Buy'' (Decimal False 10 0) (Decimal False 5 0)
        (Decimal False 2 0) (AvailableBalance (Decimal False 1000 0)) (Decimal False 5 (- 1))
        (Decimal False 1 (- 3)) (Decimal False 50000 0) world0"
  have r: "?run = (fst ?run, snd ?run)" by simp
  have ok: "fst ?run = Inr ()" unfolding example_plan by simp
  have str: "dec_str (Decimal False 20000 (- 3)) = ''20.000''"
    by (simp add: dec_str_def digits_of.simps Let_def)
  have ty: "map type (orders_of (trace (snd ?run))) = [''MARKET'', ''STOP_MARKET'', ''TAKE_PROFIT_MARKET'']"
    and pr: "map price (orders_of (trace (snd ?run))) = [''50000'', ''49000.0'', ''52500.0'']"
    and tr: "map triggerPrice (orders_of (trace (snd ?run))) = [None, Some ''49000.0'', Some ''52500.0'']"
    unfolding example_plan by (simp_all add: orders_of_def)
  from submitted_orders_consistent[of env_ok "''BTC-USDT''" "''Buy''" "Decimal False 10 0"
      "Decimal False 5 0" "Decimal False 2 0" "AvailableBalance (Decimal False 1000 0)"
      "Decimal False 5 (- 1)" "Decimal False 1 (- 3)" "Decimal False 50000 0" world0
      "fst ?run" "snd ?run" "Decimal False 20000 (- 3)" "Decimal False 525000 (- 1)"
      "Decimal False 490000 (- 1)"] r example_sizes
  obtain evs where e: "trace (snd ?run) = trace world0 @ evs"
     "\<forall>r \<in> set (orders_of evs). size r = dec_str (Decimal False 20000 (- 3))"
    by blast
  from e(1) have evs: "evs = trace (snd ?run)" by (simp add: world0_def)
  have len: "length (map size (orders_of (trace (snd ?run)))) = 3"
    using arg_cong[OF ty, of length] by simp
  have "map size (orders_of (trace (snd ?run))) = replicate 3 ''20.000''"
    using e(2) len unfolding evs str by (intro replicate_eqI) auto
  then have sz: "map size (orders_of (trace (snd ?run))) = [''20.000'', ''20.000'', ''20.000'']"
    by (simp add: numeral_3_eq_3)
  show ?thesis using example_sizes ok sz ty pr tr by simp
qed

text \<open>
  Claim C8, as the code has it. Whatever exception of class \<^verbatim>\<open>Exception\<close> leaves
  \<^verbatim>\<open>place_optimal_limit_order\<close> is caught by the main block and logged with
  \<^verbatim>\<open>logging.error\<close>; the script then ends, with exit status 0, the status of a run
  without failure.
\<close>

theorem main_logs_failure_and_exits_zero:
  "(length argv = 6 \<and> to_decimal (argv ! 3) = Some leverage
      \<and> to_decimal (argv ! 4) = Some tp_percent \<and> to_decimal (argv ! 5) = Some sl_percent
      \<and> place_optimal_limit_order ev (argv ! 1) (argv ! 2) leverage tp_percent sl_percent
           (emit [Info ''Arguments received''
                    (argv ! 1 @ '', '' @ argv ! 2 @ '', '' @ dec_str leverage @ '', ''
                       @ dec_str tp_percent @ '', '' @ dec_str sl_percent)] s) = (Inl e, s')
      \<and> is_Exception e
    \<longrightarrow> main to_decimal ev argv s = (Exit 0, emit [Error e] s'))
   \<and> (length argv = 6 \<and> to_decimal (argv ! 3) = Some leverage
      \<and> to_decimal (argv ! 4) = Some tp_percent \<and> to_decimal (argv ! 5) = Some sl_percent
      \<and> place_optimal_limit_order ev (argv ! 1) (argv ! 2) leverage tp_percent sl_percent
           (emit [Info ''Arguments received''
                    (argv ! 1 @ '', '' @ argv ! 2 @ '', '' @ dec_str leverage @ '', ''
                       @ dec_str tp_percent @ '', '' @ dec_str sl_percent)] s) = (Inr u, s')
    \<longrightarrow> main to_decimal ev argv s = (Exit 0, s'))"
  by (simp add: main_def)

text \<open>
  Claim C8 as stated fails: with the network down the run fails at its first call, the
  failure is logged, and the outcome is exit status 0, not a status other than 0.
\<close>

theorem main_exit_status_counterexample:
  "fst (place_optimal_limit_order env_down ''BTC-USDT'' ''buy'' (Decimal False 10 0)
         (Decimal False 5 0) (Decimal False 2 0) world0)
     = Inl (RequestException ''connection refused'')
   \<and> main example_to_decimal env_down
        [''alpha_entry.py'', ''BTC-USDT'', ''buy'', ''10'', ''5'', ''2''] world0
     = (Exit 0,
        \<lparr>trace = [Info ''Arguments received'' ''BTC-USDT, buy, 10, 5, 2'', Called GetAccountV3,
                   Error (RequestException ''connection refused'')],
         ncalls = 1, nclock = 0\<rparr>)"
  by (simp add: main_def example_to_decimal_def place_optimal_limit_order_def remote_def
        env_down_def emit_def world0_def dec_str_def digits_of.simps)

text \<open>The theorem of C8 with the network down.\<close>

theorem main_logs_failure_and_exits_zero_witness:
  "length [''alpha_entry.py'', ''BTC-USDT'', ''buy'', ''10'', ''5'', ''2''] = 6
   \<and> is_Exception (RequestException ''connection refused'')
   \<and> fst (main example_to_decimal env_down
        [''alpha_entry.py'', ''BTC-USDT'', ''buy'', ''10'', ''5'', ''2''] world0) = Exit 0
   \<and> last (trace (snd (main example_to_decimal env_down
        [''alpha_entry.py'', ''BTC-USDT'', ''buy'', ''10'', ''5'', ''2''] world0)))
       = Error (RequestException ''connection refused'')"
proof -
  let ?argv = "[''alpha_entry.py'', ''BTC-USDT'', ''buy'', ''10'', ''5'', ''2'']"
  let ?s = "emit [Info ''Arguments received''
                    (?argv ! 1 @ '', '' @ ?argv ! 2 @ '', '' @ dec_str (Decimal False 10 0) @ '', ''
                       @ dec_str (Decimal False 5 0) @ '', '' @ dec_str (Decimal False 2 0))] world0"
  let ?s' = "(emit [Called GetAccountV3] ?s)\<lparr>ncalls := Suc (ncalls ?s)\<rparr>"
  have h: "length ?argv = 6" "example_to_decimal (?argv ! 3) = Some (Decimal False 10 0)"
    "example_to_decimal (?argv ! 4) = Some (Decimal False 5 0)"
    "example_to_decimal (?argv ! 5) = Some (Decimal False 2 0)"
    "is_Exception (RequestException ''connection refused'')"
    by (simp_all add: example_to_decimal_def)
  have run: "place_optimal_limit_order env_down (?argv ! 1) (?argv ! 2) (Decimal False 10 0)
       (Decimal False 5 0) (Decimal False 2 0) ?s
     = (Inl (RequestException ''connection refused''), ?s')"
    by (simp add: place_optimal_limit_order_def remote_def env_down_def)
  from main_logs_failure_and_exits_zero[of ?argv example_to_decimal "Decimal False 10 0"
      "Decimal False 5 0" "Decimal False 2 0" env_down world0
      "RequestException ''connection refused''" ?s'] h run
  have m: "main example_to_decimal env_down ?argv world0
       = (Exit 0, emit [Error (RequestException ''connection refused'')] ?s')"
    by blast
  show ?thesis unfolding m using h by (simp add: emit_def)
qed


end
